theory Spec2Isabelle
  imports Complex_Main "HOL-Library.Sublist" "HOL-Library.Char_ord" "HOL-Library.List_Lexorder"
begin

section \<open>Strings\<close>

text \<open>
  Python \<^verbatim>\<open>str\<close> values are modelled as \<^typ>\<open>string\<close>.  The three string
  operations used by the dependency graph builder are \<^verbatim>\<open>str.replace\<close> (with a
  non-empty pattern), \<^verbatim>\<open>str.split\<close> on a one-character separator and
  \<^verbatim>\<open>sep.join\<close>.
\<close>

fun replace_str :: "string \<Rightarrow> string \<Rightarrow> string \<Rightarrow> string" where
  "replace_str old new [] = []"
| "replace_str old new (c # cs) =
     (if take (length old) (c # cs) = old
      then new @ replace_str old new (drop (length old - 1) cs)
      else c # replace_str old new cs)"

fun split_on :: "char \<Rightarrow> string \<Rightarrow> string list" where
  "split_on sep [] = [[]]"
| "split_on sep (c # cs) =
     (if c = sep then [] # split_on sep cs
      else (case split_on sep cs of
              [] \<Rightarrow> [[c]]
            | w # ws \<Rightarrow> (c # w) # ws))"

fun join :: "string \<Rightarrow> string list \<Rightarrow> string" where
  "join sep [] = []"
| "join sep [w] = w"
| "join sep (w # ws) = w @ sep @ join sep ws"

section \<open>Dictionaries and sets of the builder\<close>

text \<open>
  \<^verbatim>\<open>files_data\<close>, \<^verbatim>\<open>graph\<close> and \<^verbatim>\<open>reverse_graph\<close> are iterated over, so they are
  association lists in insertion order, as a Python \<^verbatim>\<open>dict\<close> is.  \<^verbatim>\<open>d[k] = v\<close> keeps
  the position of an existing key.  The values of the two adjacency dictionaries are
  Python sets; the source does not fix their iteration order, the model keeps the
  members in the order of their first insertion.
\<close>

type_synonym ('k, 'v) dict = "('k \<times> 'v) list"

fun dict_set :: "'k \<Rightarrow> 'v \<Rightarrow> ('k, 'v) dict \<Rightarrow> ('k, 'v) dict" where
  "dict_set k v [] = [(k, v)]"
| "dict_set k v ((k', v') # d) =
     (if k' = k then (k, v) # d else (k', v') # dict_set k v d)"

definition keys :: "('k, 'v) dict \<Rightarrow> 'k list" where
  "keys d = map fst d"

definition set_add :: "'a \<Rightarrow> 'a list \<Rightarrow> 'a list" where
  "set_add x xs = (if x \<in> set xs then xs else xs @ [x])"

text \<open>\<^verbatim>\<open>d.get(k, set())\<close> on an adjacency dictionary: no key is created.\<close>

definition adj :: "(string, string list) dict \<Rightarrow> string \<Rightarrow> string list" where
  "adj g k = (case map_of g k of None \<Rightarrow> [] | Some vs \<Rightarrow> vs)"

text \<open>\<^verbatim>\<open>d[k].add(v)\<close> on a \<^verbatim>\<open>defaultdict(set)\<close>: a missing key is created.\<close>

definition dd_add :: "string \<Rightarrow> string \<Rightarrow> (string, string list) dict \<Rightarrow> (string, string list) dict" where
  "dd_add k v g = dict_set k (set_add v (adj g k)) g"

section \<open>Module resolver\<close>

type_synonym module_map = "string \<rightharpoonup> string"

definition module_name_of :: "string \<Rightarrow> string" where
  "module_name_of file_path =
     replace_str ''.py'' '''' (replace_str [CHR 0x5C] ''.'' (replace_str ''/'' ''.'' file_path))"

text \<open>The inner loop \<^verbatim>\<open>for i in range(len(parts))\<close> of \<^verbatim>\<open>_build_module_mapping\<close>.\<close>

fun register_partials :: "string \<Rightarrow> string list \<Rightarrow> nat list \<Rightarrow> module_map \<Rightarrow> module_map" where
  "register_partials file_path parts [] module_map = module_map"
| "register_partials file_path parts (i # is) module_map =
     (let partial = join ''.'' (drop i parts)
      in register_partials file_path parts is
           (if module_map partial = None then module_map(partial \<mapsto> file_path) else module_map))"

definition register_file :: "string \<Rightarrow> module_map \<Rightarrow> module_map" where
  "register_file file_path module_map =
     (let module_name = module_name_of file_path;
          module_map1 = module_map(module_name \<mapsto> file_path);
          parts = split_on CHR ''.'' module_name
      in register_partials file_path parts [0 ..< length parts] module_map1)"

fun register_files :: "string list \<Rightarrow> module_map \<Rightarrow> module_map" where
  "register_files [] module_map = module_map"
| "register_files (file_path # rest) module_map = register_files rest (register_file file_path module_map)"

definition build_module_mapping :: "(string, string list) dict \<Rightarrow> module_map" where
  "build_module_mapping files_data = register_files (keys files_data) Map.empty"

text \<open>The loop \<^verbatim>\<open>for i in range(len(parts), 0, -1)\<close> of \<^verbatim>\<open>_resolve_import\<close>.\<close>

fun resolve_prefixes :: "string list \<Rightarrow> nat \<Rightarrow> module_map \<Rightarrow> string option" where
  "resolve_prefixes parts 0 module_map = None"
| "resolve_prefixes parts (Suc i) module_map =
     (let partial = join ''.'' (take (Suc i) parts)
      in case module_map partial of
           Some f \<Rightarrow> Some f
         | None \<Rightarrow> resolve_prefixes parts i module_map)"

definition resolve_import :: "string \<Rightarrow> string \<Rightarrow> module_map \<Rightarrow> string option" where
  "resolve_import import_name source_file module_map =
     (case module_map import_name of
        Some f \<Rightarrow> Some f
      | None \<Rightarrow>
          (let parts = split_on CHR ''.'' import_name
           in resolve_prefixes parts (length parts) module_map))"

definition local_patterns :: "string list" where
  "local_patterns = [''app'', ''src'', ''lib'', ''utils'', ''services'', ''models'', ''routes'']"

definition is_local_import :: "string \<Rightarrow> bool" where
  "is_local_import import_name =
     (case split_on CHR ''.'' import_name of
        [] \<Rightarrow> False
      | first_part # _ \<Rightarrow> first_part \<in> set local_patterns)"

section \<open>Import extractor\<close>

text \<open>
  Reading and parsing a file are done by the Python runtime (\<^verbatim>\<open>open\<close>, \<^verbatim>\<open>ast.parse\<close>,
  \<^verbatim>\<open>ast.walk\<close>); their outcome is the input of the model.  A parsed file is the sequence
  of syntax-tree nodes in the order \<^verbatim>\<open>ast.walk\<close> yields them, reduced to the node classes
  the source tests for.
\<close>

datatype ast_node =
    Import "string list"
  | ImportFrom "string option"
  | ClassDef
  | FunctionDef
  | OtherNode

datatype parse_outcome =
    Parsed "ast_node list"
  | SyntaxError nat string
  | OtherParseError

datatype read_outcome =
    Unreadable
  | Content string parse_outcome

fun node_imports :: "ast_node \<Rightarrow> string list" where
  "node_imports (Import names) = names"
| "node_imports (ImportFrom (Some module_name)) = (if module_name \<noteq> [] then [module_name] else [])"
| "node_imports (ImportFrom None) = []"
| "node_imports ClassDef = []"
| "node_imports FunctionDef = []"
| "node_imports OtherNode = []"

definition walk_imports :: "ast_node list \<Rightarrow> string list" where
  "walk_imports nodes = concat (map node_imports nodes)"

fun extract_imports :: "read_outcome \<Rightarrow> string list" where
  "extract_imports Unreadable = []"
| "extract_imports (Content code (Parsed nodes)) = walk_imports nodes"
| "extract_imports (Content code (SyntaxError line msg)) = []"
| "extract_imports (Content code OtherParseError) = []"

section \<open>Graph builder\<close>

record missing_import =
  mi_file :: string
  mi_import :: string

record builder =
  files_data :: "(string, string list) dict"
  graph :: "(string, string list) dict"
  reverse_graph :: "(string, string list) dict"
  circular_deps :: "string list list"
  missing_imports :: "missing_import list"

text \<open>\<^verbatim>\<open>__init__\<close>; the upload directory is only used to reach the file system.\<close>

definition init_builder :: builder where
  "init_builder = \<lparr>files_data = [], graph = [], reverse_graph = [], circular_deps = [],
     missing_imports = []\<rparr>"

text \<open>\<^verbatim>\<open>if target_file:\<close> holds for a result that is neither \<^verbatim>\<open>None\<close> nor the empty string.\<close>

fun resolved :: "string option \<Rightarrow> bool" where
  "resolved None = False"
| "resolved (Some target_file) = (target_file \<noteq> [])"

definition relate_import :: "string \<Rightarrow> module_map \<Rightarrow> string \<Rightarrow> builder \<Rightarrow> builder" where
  "relate_import file_path module_to_file import_name b =
     (let target_file = resolve_import import_name file_path module_to_file
      in if resolved target_file
         then b\<lparr>graph := dd_add file_path (the target_file) (graph b),
                reverse_graph := dd_add (the target_file) file_path (reverse_graph b)\<rparr>
         else if is_local_import import_name
         then b\<lparr>missing_imports :=
                  missing_imports b @ [\<lparr>mi_file = file_path, mi_import = import_name\<rparr>]\<rparr>
         else b)"

fun relate_imports :: "string \<Rightarrow> module_map \<Rightarrow> string list \<Rightarrow> builder \<Rightarrow> builder" where
  "relate_imports file_path module_to_file [] b = b"
| "relate_imports file_path module_to_file (import_name # rest) b =
     relate_imports file_path module_to_file rest
       (relate_import file_path module_to_file import_name b)"

fun relate_files :: "(string, string list) dict \<Rightarrow> module_map \<Rightarrow> builder \<Rightarrow> builder" where
  "relate_files [] module_to_file b = b"
| "relate_files ((file_path, imports) # rest) module_to_file b =
     relate_files rest module_to_file (relate_imports file_path module_to_file imports b)"

definition build_relationships :: "builder \<Rightarrow> builder" where
  "build_relationships b =
     relate_files (files_data b) (build_module_mapping (files_data b)) b"

section \<open>Cycle detector\<close>

text \<open>
  The nested function \<^verbatim>\<open>dfs\<close> shares \<^verbatim>\<open>visited\<close>, \<^verbatim>\<open>rec_stack\<close> and
  \<^verbatim>\<open>self.circular_deps\<close> with its caller; the model threads them as a state.
  \<^verbatim>\<open>path.index\<close> raises \<^verbatim>\<open>ValueError\<close> for an absent element, and a recursion deeper
  than the interpreter's limit raises \<^verbatim>\<open>RecursionError\<close>; the remaining depth is the
  first argument of \<open>dfs\<close>.
\<close>

datatype error = ValueError | RecursionError

record dfs_state =
  visited :: "string set"
  rec_stack :: "string set"
  cycles :: "string list list"

fun index_of :: "'a \<Rightarrow> 'a list \<Rightarrow> nat option" where
  "index_of x [] = None"
| "index_of x (y # ys) =
     (if y = x then Some 0 else map_option Suc (index_of x ys))"

fun dfs :: "nat \<Rightarrow> (string, string list) dict \<Rightarrow> string \<Rightarrow> string list \<Rightarrow> dfs_state
              \<Rightarrow> error + bool \<times> dfs_state"
and dfs_neighbors :: "nat \<Rightarrow> (string, string list) dict \<Rightarrow> string \<Rightarrow> string list \<Rightarrow> string list
              \<Rightarrow> dfs_state \<Rightarrow> error + bool \<times> dfs_state" where
  "dfs 0 g node path st = Inl RecursionError"
| "dfs (Suc depth) g node path st =
     dfs_neighbors depth g node (path @ [node]) (adj g node)
       (st\<lparr>visited := insert node (visited st), rec_stack := insert node (rec_stack st)\<rparr>)"
| "dfs_neighbors depth g node path [] st =
     Inr (False, st\<lparr>rec_stack := rec_stack st - {node}\<rparr>)"
| "dfs_neighbors depth g node path (neighbor # rest) st =
     (if neighbor \<notin> visited st then
        (case dfs depth g neighbor path st of
           Inl e \<Rightarrow> Inl e
         | Inr (found, st') \<Rightarrow>
             if found then Inr (True, st') else dfs_neighbors depth g node path rest st')
      else if neighbor \<in> rec_stack st then
        (case index_of neighbor path of
           None \<Rightarrow> Inl ValueError
         | Some cycle_start \<Rightarrow>
             Inr (True, st\<lparr>cycles := cycles st @ [drop cycle_start path @ [neighbor]]\<rparr>))
      else dfs_neighbors depth g node path rest st)"

fun dfs_roots :: "nat \<Rightarrow> (string, string list) dict \<Rightarrow> string list \<Rightarrow> dfs_state
                    \<Rightarrow> error + dfs_state" where
  "dfs_roots limit g [] st = Inr st"
| "dfs_roots limit g (node # rest) st =
     (if node \<notin> visited st then
        (case dfs limit g node [] st of
           Inl e \<Rightarrow> Inl e
         | Inr (found, st') \<Rightarrow> dfs_roots limit g rest st')
      else dfs_roots limit g rest st)"

definition detect_circular_dependencies :: "nat \<Rightarrow> builder \<Rightarrow> error + builder" where
  "detect_circular_dependencies limit b =
     (case dfs_roots limit (graph b) (keys (graph b))
             \<lparr>visited = {}, rec_stack = {}, cycles = circular_deps b\<rparr> of
        Inl e \<Rightarrow> Inl e
      | Inr st \<Rightarrow> Inr (b\<lparr>circular_deps := cycles st\<rparr>))"

section \<open>Graph data\<close>

record node =
  node_id :: string
  label :: string
  full_path :: string
  imports_count :: nat
  imported_by_count :: nat
  node_size :: nat

record edge =
  edge_id :: nat
  edge_from :: string
  edge_to :: string
  arrows :: string

record file_count =
  fc_file :: string
  fc_count :: nat

record statistics =
  total_files :: nat
  total_dependencies :: nat
  stat_circular_dependencies :: nat
  stat_missing_imports :: nat
  isolated_files :: nat
  most_imported :: "file_count list"
  most_imports :: "file_count list"

record graph_data =
  nodes :: "node list"
  edges :: "edge list"
  gd_circular_dependencies :: "string list list"
  gd_missing_imports :: "missing_import list"
  gd_statistics :: statistics

text \<open>\<^verbatim>\<open>Path(file_path).name\<close> for a POSIX path: the last component.\<close>

definition path_name :: "string \<Rightarrow> string" where
  "path_name p =
     (case filter (\<lambda>c. c \<noteq> [] \<and> c \<noteq> ''.'') (split_on CHR ''/'' p) of
        [] \<Rightarrow> []
      | c # cs \<Rightarrow> last (c # cs))"

definition make_node :: "builder \<Rightarrow> string \<Rightarrow> node" where
  "make_node b file_path =
     (let ic = length (adj (graph b) file_path);
          ibc = length (adj (reverse_graph b) file_path)
      in \<lparr>node_id = file_path, label = path_name file_path, full_path = file_path,
          imports_count = ic, imported_by_count = ibc, node_size = max 10 (ibc * 5)\<rparr>)"

fun make_edges :: "nat \<Rightarrow> (string, string list) dict \<Rightarrow> edge list" where
  "make_edges n [] = []"
| "make_edges n ((source, targets) # rest) =
     map (\<lambda>(i, target). \<lparr>edge_id = n + i, edge_from = source, edge_to = target, arrows = ''to''\<rparr>)
         (enumerate 0 targets)
     @ make_edges (n + length targets) rest"

text \<open>
  \<^verbatim>\<open>list.sort(key=..., reverse=True)\<close> is stable: entries with equal counts keep their
  order, as \<^const>\<open>sort_key\<close> on the negated count does.
\<close>

definition top_counts :: "nat \<Rightarrow> (string, string list) dict \<Rightarrow> file_count list" where
  "top_counts limit d =
     take limit
       (sort_key (\<lambda>x. - int (fc_count x))
          (map (\<lambda>(file, others). \<lparr>fc_file = file, fc_count = length others\<rparr>) d))"

definition get_most_imported :: "builder \<Rightarrow> nat \<Rightarrow> file_count list" where
  "get_most_imported b limit = top_counts limit (reverse_graph b)"

definition get_most_imports :: "builder \<Rightarrow> nat \<Rightarrow> file_count list" where
  "get_most_imports b limit = top_counts limit (graph b)"

text \<open>
  \<^verbatim>\<open>_generate_graph_data\<close>.  The nodes are built in a loop over \<^verbatim>\<open>set(files_data.keys())\<close>;
  the model takes the keys in their order in the dictionary.
\<close>

definition generate_graph_data :: "builder \<Rightarrow> graph_data" where
  "generate_graph_data b =
     (let all_files = keys (files_data b);
          es = make_edges 0 (graph b)
      in \<lparr>nodes = map (make_node b) all_files,
          edges = es,
          gd_circular_dependencies = circular_deps b,
          gd_missing_imports = missing_imports b,
          gd_statistics =
            \<lparr>total_files = length all_files,
             total_dependencies = length es,
             stat_circular_dependencies = length (circular_deps b),
             stat_missing_imports = length (missing_imports b),
             isolated_files =
               length (filter (\<lambda>f. adj (graph b) f = [] \<and> adj (reverse_graph b) f = []) all_files),
             most_imported = get_most_imported b 3,
             most_imports = get_most_imports b 3\<rparr>\<rparr>)"

text \<open>
  \<^verbatim>\<open>build_graph\<close>.  The result of \<^verbatim>\<open>glob("**/*.py")\<close> is the list of relative paths with
  the outcome of reading and parsing each file.  The builder is an argument, since the
  method works on the attributes of \<^verbatim>\<open>self\<close>, and is returned with the result.
\<close>

fun load_files :: "(string \<times> read_outcome) list \<Rightarrow> builder \<Rightarrow> builder" where
  "load_files [] b = b"
| "load_files ((rel_path, py_file) # rest) b =
     load_files rest (b\<lparr>files_data := dict_set rel_path (extract_imports py_file) (files_data b)\<rparr>)"

definition build_graph :: "nat \<Rightarrow> builder \<Rightarrow> (string \<times> read_outcome) list
                             \<Rightarrow> error + builder \<times> graph_data" where
  "build_graph limit b python_files =
     (case detect_circular_dependencies limit (build_relationships (load_files python_files b)) of
        Inl e \<Rightarrow> Inl e
      | Inr b' \<Rightarrow> Inr (b', generate_graph_data b'))"

record file_dependencies =
  fd_file :: string
  imports_from :: "string list"
  imported_by :: "string list"
  fd_imports_count :: nat
  fd_imported_by_count :: nat

definition get_file_dependencies :: "builder \<Rightarrow> string \<Rightarrow> builder \<times> file_dependencies" where
  "get_file_dependencies b file_path =
     (b, \<lparr>fd_file = file_path,
          imports_from = adj (graph b) file_path,
          imported_by = adj (reverse_graph b) file_path,
          fd_imports_count = length (adj (graph b) file_path),
          fd_imported_by_count = length (adj (reverse_graph b) file_path)\<rparr>)"

section \<open>Snapshot records\<close>

text \<open>
  The pydantic models of \<^verbatim>\<open>codebase_metadata.py\<close>.  Time stamps are integers.  Python
  floats are modelled by the rationals they denote.
\<close>

record file_metadata =
  relative_path :: string
  filename :: string
  size_bytes :: int
  extension :: string
  lines_count :: "int option"
  classes_count :: "int option"
  functions_count :: "int option"
  fm_imports :: "string list"
  content_hash :: "string option"

record dependency_metadata =
  dm_total_dependencies :: int
  dm_circular_dependencies :: "string list list"
  dm_most_imported_files :: "file_count list"
  dm_missing_imports :: "string list"
  external_packages :: "string list"

record codebase_metadata =
  upload_id :: string
  name :: string
  uploaded_at :: int
  cm_total_files :: int
  total_bytes :: int
  file_types :: "(string, int) dict"
  folder_structure :: "(string, int) dict"
  total_lines :: int
  total_classes :: int
  total_functions :: int
  dependencies :: "dependency_metadata option"
  files :: "file_metadata list"
  has_summaries :: bool
  summaries_generated_at :: "int option"
  version_tag :: "string option"

record codebase_comparison =
  base_upload_id :: string
  compare_upload_id :: string
  base_name :: string
  compare_name :: string
  compared_at :: int
  files_added :: "string list"
  files_removed :: "string list"
  files_modified :: "string list"
  files_unchanged :: "string list"
  size_change_bytes :: int
  cc_size_change_percent :: rat
  cc_lines_change :: int
  cc_lines_change_percent :: rat
  cc_classes_change :: int
  cc_functions_change :: int
  dependencies_added :: "string list"
  dependencies_removed :: "string list"
  new_circular_dependencies :: "string list list"
  resolved_circular_dependencies :: "string list list"
  similarity_score :: rat
  comparison_summary :: string

section \<open>Comparator\<close>

text \<open>
  What the source leaves to the floating-point runtime is a parameter of the model:
  the direction in which \<^verbatim>\<open>round\<close> resolves a quotient that lies exactly halfway between
  two decimals (it depends on the binary representation of the quotient), and the
  text that the format specifications \<^verbatim>\<open>.1f\<close> and \<^verbatim>\<open>+.1f\<close> produce.
\<close>

record float_model =
  tie_up :: "rat \<Rightarrow> bool"
  format_1f :: "rat \<Rightarrow> string"
  format_plus_1f :: "rat \<Rightarrow> string"

definition py_round :: "float_model \<Rightarrow> nat \<Rightarrow> rat \<Rightarrow> rat" where
  "py_round fm ndigits x =
     (let scaled = x * 10 ^ ndigits;
          lower = \<lfloor>scaled\<rfloor>;
          rest = scaled - of_int lower
      in of_int (if rest < 1 / 2 then lower
                 else if 1 / 2 < rest then lower + 1
                 else if tie_up fm x then lower + 1 else lower) / 10 ^ ndigits)"

definition digit_char :: "nat \<Rightarrow> char" where
  "digit_char d = char_of (48 + d)"

function str_nat :: "nat \<Rightarrow> string" where
  "str_nat n = (if n < 10 then [digit_char n] else str_nat (n div 10) @ [digit_char (n mod 10)])"
  by pat_completeness auto
termination
  by (relation "measure id") auto

record file_changes =
  added :: "string list"
  removed :: "string list"
  modified :: "string list"
  unchanged :: "string list"

record metric_changes =
  size_change :: int
  size_change_percent :: rat
  lines_change :: int
  lines_change_percent :: rat
  classes_change :: int
  functions_change :: int

record dep_changes =
  dep_added :: "string list"
  dep_removed :: "string list"
  new_circular :: "string list list"
  resolved_circular :: "string list list"

text \<open>\<^verbatim>\<open>{f.relative_path: f for f in files}\<close>: a later file replaces an earlier one.\<close>

definition file_dict :: "file_metadata list \<Rightarrow> (string \<rightharpoonup> file_metadata)" where
  "file_dict fs = fold (\<lambda>f d. d(relative_path f \<mapsto> f)) fs Map.empty"

text \<open>Truth value of an \<^verbatim>\<open>Optional[str]\<close>.\<close>

fun truthy :: "string option \<Rightarrow> bool" where
  "truthy None = False"
| "truthy (Some s) = (s \<noteq> [])"

text \<open>The body of the loop over \<^verbatim>\<open>common\<close>; both dictionaries hold every common path.\<close>

definition is_modified :: "(string \<rightharpoonup> file_metadata) \<Rightarrow> (string \<rightharpoonup> file_metadata) \<Rightarrow> string \<Rightarrow> bool" where
  "is_modified base_files compare_files path =
     (case (base_files path, compare_files path) of
        (Some base_file, Some compare_file) \<Rightarrow>
          if truthy (content_hash base_file) \<and> truthy (content_hash compare_file)
          then content_hash base_file \<noteq> content_hash compare_file
          else size_bytes base_file \<noteq> size_bytes compare_file
      | _ \<Rightarrow> False)"

definition compare_file_structures :: "codebase_metadata \<Rightarrow> codebase_metadata \<Rightarrow> file_changes" where
  "compare_file_structures base_metadata compare_metadata =
     (let base_files = file_dict (files base_metadata);
          compare_files = file_dict (files compare_metadata);
          base_paths = set (map relative_path (files base_metadata));
          compare_paths = set (map relative_path (files compare_metadata));
          common = base_paths \<inter> compare_paths
      in \<lparr>added = sorted_list_of_set (compare_paths - base_paths),
          removed = sorted_list_of_set (base_paths - compare_paths),
          modified = sorted_list_of_set (Set.filter (is_modified base_files compare_files) common),
          unchanged = sorted_list_of_set
                        (Set.filter (\<lambda>p. \<not> is_modified base_files compare_files p) common)\<rparr>)"

definition compare_metrics :: "float_model \<Rightarrow> codebase_metadata \<Rightarrow> codebase_metadata \<Rightarrow> metric_changes" where
  "compare_metrics fm base_metadata compare_metadata =
     (let sc = total_bytes compare_metadata - total_bytes base_metadata;
          scp = (if total_bytes base_metadata > 0
                 then of_int sc / of_int (total_bytes base_metadata) * 100 else 0);
          lc = total_lines compare_metadata - total_lines base_metadata;
          lcp = (if total_lines base_metadata > 0
                 then of_int lc / of_int (total_lines base_metadata) * 100 else 0)
      in \<lparr>size_change = sc,
          size_change_percent = py_round fm 2 scp,
          lines_change = lc,
          lines_change_percent = py_round fm 2 lcp,
          classes_change = total_classes compare_metadata - total_classes base_metadata,
          functions_change = total_functions compare_metadata - total_functions base_metadata\<rparr>)"

text \<open>
  The two lists of cycles are built from a set difference and not sorted; the model
  lists the members in the order of their first occurrence.
\<close>

definition compare_dependencies :: "codebase_metadata \<Rightarrow> codebase_metadata \<Rightarrow> dep_changes" where
  "compare_dependencies base_metadata compare_metadata =
     (case (dependencies base_metadata, dependencies compare_metadata) of
        (Some base_deps, Some compare_deps) \<Rightarrow>
          (let base_packages = set (external_packages base_deps);
               compare_packages = set (external_packages compare_deps);
               base_circular = dm_circular_dependencies base_deps;
               compare_circular = dm_circular_dependencies compare_deps
           in \<lparr>dep_added = sorted_list_of_set (compare_packages - base_packages),
               dep_removed = sorted_list_of_set (base_packages - compare_packages),
               new_circular = remdups (filter (\<lambda>c. c \<notin> set base_circular) compare_circular),
               resolved_circular = remdups (filter (\<lambda>c. c \<notin> set compare_circular) base_circular)\<rparr>)
      | _ \<Rightarrow> \<lparr>dep_added = [], dep_removed = [], new_circular = [], resolved_circular = []\<rparr>)"

definition calculate_similarity :: "float_model \<Rightarrow> codebase_metadata \<Rightarrow> codebase_metadata \<Rightarrow> rat" where
  "calculate_similarity fm base_metadata compare_metadata =
     (let base_count = length (files base_metadata);
          compare_count = length (files compare_metadata)
      in if base_count = 0 \<and> compare_count = 0 then 1
         else if base_count = 0 \<or> compare_count = 0 then 0
         else
           (let base_paths = set (map relative_path (files base_metadata));
                compare_paths = set (map relative_path (files compare_metadata));
                common_files = base_paths \<inter> compare_paths;
                total_unique = base_paths \<union> compare_paths
            in if card total_unique = 0 then 1
               else py_round fm 3 (of_nat (card common_files) / of_nat (card total_unique))))"

text \<open>
  The two symbols that open the clauses on circular dependencies are written as their
  UTF-8 bytes: U+26A0 U+FE0F and U+2713.
\<close>

definition warning_sign :: string where
  "warning_sign = [CHR 0xE2, CHR 0x9A, CHR 0xA0, CHR 0xEF, CHR 0xB8, CHR 0x8F]"

definition check_mark :: string where
  "check_mark = [CHR 0xE2, CHR 0x9C, CHR 0x93]"

definition generate_summary :: "float_model \<Rightarrow> file_changes \<Rightarrow> metric_changes \<Rightarrow> dep_changes \<Rightarrow> string" where
  "generate_summary fm fc mc dc =
     (let lines =
            (if added fc \<noteq> [] then [''Added '' @ str_nat (length (added fc)) @ '' new files''] else [])
          @ (if removed fc \<noteq> [] then [''Removed '' @ str_nat (length (removed fc)) @ '' files''] else [])
          @ (if modified fc \<noteq> [] then [''Modified '' @ str_nat (length (modified fc)) @ '' files''] else [])
          @ (if \<bar>size_change mc\<bar> > 1024 then
               (let size_kb = (of_int (size_change mc) :: rat) / 1024;
                    direction = (if size_change mc > 0 then ''increased'' else ''decreased'')
                in [''Codebase size '' @ direction @ '' by '' @ format_1f fm \<bar>size_kb\<bar> @ '' KB (''
                      @ format_plus_1f fm (size_change_percent mc) @ ''%)''])
             else [])
          @ (if lines_change mc \<noteq> 0 then
               (let direction = (if lines_change mc > 0 then ''added'' else ''removed'')
                in [str_nat (nat \<bar>lines_change mc\<bar>) @ '' lines '' @ direction @ '' (''
                      @ format_plus_1f fm (lines_change_percent mc) @ ''%)''])
             else [])
          @ (if dep_added dc \<noteq> [] then
               [''Added dependencies: '' @ join '', '' (take 5 (dep_added dc))
                  @ (if length (dep_added dc) > 5
                     then '' and '' @ str_nat (length (dep_added dc) - 5) @ '' more'' else [])]
             else [])
          @ (if new_circular dc \<noteq> [] then
               [warning_sign @ '' Introduced '' @ str_nat (length (new_circular dc))
                  @ '' new circular dependencies'']
             else [])
          @ (if resolved_circular dc \<noteq> [] then
               [check_mark @ '' Resolved '' @ str_nat (length (resolved_circular dc))
                  @ '' circular dependencies'']
             else [])
      in if lines = [] then ''No significant changes detected'' else join ''; '' lines)"

text \<open>\<^verbatim>\<open>compare\<close>; the value of \<^verbatim>\<open>datetime.utcnow()\<close> is the argument \<open>now\<close>.\<close>

definition compare :: "float_model \<Rightarrow> int \<Rightarrow> codebase_metadata \<Rightarrow> codebase_metadata \<Rightarrow> codebase_comparison" where
  "compare fm now base cmp =
     (let file_changes = compare_file_structures base cmp;
          metric_changes = compare_metrics fm base cmp;
          dep_changes = compare_dependencies base cmp;
          similarity = calculate_similarity fm base cmp;
          summary = generate_summary fm file_changes metric_changes dep_changes
      in \<lparr>base_upload_id = upload_id base,
          compare_upload_id = upload_id cmp,
          base_name = name base,
          compare_name = name cmp,
          compared_at = now,
          files_added = added file_changes,
          files_removed = removed file_changes,
          files_modified = modified file_changes,
          files_unchanged = unchanged file_changes,
          size_change_bytes = size_change metric_changes,
          cc_size_change_percent = size_change_percent metric_changes,
          cc_lines_change = lines_change metric_changes,
          cc_lines_change_percent = lines_change_percent metric_changes,
          cc_classes_change = classes_change metric_changes,
          cc_functions_change = functions_change metric_changes,
          dependencies_added = dep_added dep_changes,
          dependencies_removed = dep_removed dep_changes,
          new_circular_dependencies = new_circular dep_changes,
          resolved_circular_dependencies = resolved_circular dep_changes,
          similarity_score = similarity,
          comparison_summary = summary\<rparr>)"

section \<open>Metadata builder\<close>

definition SUPPORTED_EXTENSIONS :: "string list" where
  "SUPPORTED_EXTENSIONS = [''.py'', ''.js'', ''.ts'', ''.jsx'', ''.tsx'', ''.java'', ''.cpp'', ''.c'', ''.h'']"

definition EXCLUDE_DIRS :: "string list" where
  "EXCLUDE_DIRS = [''__pycache__'', ''.git'', ''venv'', ''node_modules'', ''.venv'', ''env'', ''build'', ''dist'']"

text \<open>
  A file as the scan meets it: the suffix \<^verbatim>\<open>pathlib\<close> gives for its name, the size
  \<^verbatim>\<open>stat\<close> reports (\<open>None\<close> when \<^verbatim>\<open>stat\<close> raises), the outcome of reading and
  parsing it, and the digest \<^verbatim>\<open>compute_file_hash\<close> returns for it.  A directory holds
  its files and its subdirectories in the order \<^verbatim>\<open>walk\<close> lists them.
\<close>

record disk_file =
  suffix_of_name :: string
  stat_size :: "int option"
  read_result :: read_outcome
  sha256_hex :: string

datatype dir_tree = Dir "(string \<times> disk_file) list" "(string \<times> dir_tree) list"

record metadata_builder =
  files_metadata :: "file_metadata list"
  mb_file_types :: "(string, int) dict"
  mb_folder_structure :: "(string, int) dict"
  mb_total_bytes :: int
  mb_total_lines :: int
  mb_total_classes :: int
  mb_total_functions :: int
  mb_external_packages :: "string set"

record python_metrics =
  pm_lines :: int
  pm_classes :: int
  pm_functions :: int
  pm_imports :: "string list"

definition count_newlines :: "string \<Rightarrow> int" where
  "count_newlines content = int (length (filter (\<lambda>c. c = CHR 0x0A) content))"

fun extract_python_metrics :: "read_outcome \<Rightarrow> python_metrics" where
  "extract_python_metrics Unreadable =
     \<lparr>pm_lines = 0, pm_classes = 0, pm_functions = 0, pm_imports = []\<rparr>"
| "extract_python_metrics (Content content (Parsed tree)) =
     \<lparr>pm_lines = count_newlines content + 1,
      pm_classes = int (length (filter (\<lambda>n. n = ClassDef) tree)),
      pm_functions = int (length (filter (\<lambda>n. n = FunctionDef) tree)),
      pm_imports = walk_imports tree\<rparr>"
| "extract_python_metrics (Content content (SyntaxError line msg)) =
     \<lparr>pm_lines = count_newlines content + 1, pm_classes = 0, pm_functions = 0, pm_imports = []\<rparr>"
| "extract_python_metrics (Content content OtherParseError) =
     \<lparr>pm_lines = 0, pm_classes = 0, pm_functions = 0, pm_imports = []\<rparr>"

definition lower_char :: "char \<Rightarrow> char" where
  "lower_char c =
     (if 65 \<le> (of_char c :: nat) \<and> (of_char c :: nat) \<le> 90 then char_of ((of_char c :: nat) + 32) else c)"

definition lower :: "string \<Rightarrow> string" where
  "lower s = map lower_char s"

text \<open>\<^verbatim>\<open>d[k] += 1\<close> on a \<^verbatim>\<open>defaultdict(int)\<close>.\<close>

definition dd_incr :: "string \<Rightarrow> (string, int) dict \<Rightarrow> (string, int) dict" where
  "dd_incr k d = dict_set k ((case map_of d k of None \<Rightarrow> 0 | Some n \<Rightarrow> n) + 1) d"

text \<open>The loop \<^verbatim>\<open>for imp in imports\<close> that tracks external packages.\<close>

definition track_external :: "string list \<Rightarrow> string set \<Rightarrow> string set" where
  "track_external imports packages =
     fold (\<lambda>imp ps. if \<not> (take 1 imp = ''.'') \<and> CHR ''.'' \<notin> set imp then insert imp ps else ps)
          imports packages"

text \<open>
  The body of the loop over \<^verbatim>\<open>filenames\<close>.  Inside the \<^verbatim>\<open>try\<close> block only \<^verbatim>\<open>stat\<close> can
  raise (the metric extractor and the hash function catch their own failures); the
  handler skips the file.
\<close>

definition scan_file :: "string \<Rightarrow> string list \<Rightarrow> string \<times> disk_file \<Rightarrow> metadata_builder
                           \<Rightarrow> metadata_builder" where
  "scan_file folder_name dir_parts entry mb =
     (let file_name = fst entry;
          f = snd entry;
          ext = lower (suffix_of_name f)
      in if ext \<notin> set SUPPORTED_EXTENSIONS then mb
         else
           (case stat_size f of
              None \<Rightarrow> mb
            | Some size_bytes' \<Rightarrow>
                (let rel_path = join ''/'' (dir_parts @ [file_name]);
                     metrics = extract_python_metrics (read_result f);
                     mb1 = (if ext = ''.py''
                            then mb\<lparr>mb_total_lines := mb_total_lines mb + pm_lines metrics,
                                    mb_total_classes := mb_total_classes mb + pm_classes metrics,
                                    mb_total_functions := mb_total_functions mb + pm_functions metrics,
                                    mb_external_packages :=
                                      track_external (pm_imports metrics) (mb_external_packages mb)\<rparr>
                            else mb);
                     file_meta =
                       \<lparr>relative_path = replace_str [CHR 0x5C] ''/'' rel_path,
                        filename = file_name,
                        size_bytes = size_bytes',
                        extension = ext,
                        lines_count = (if ext = ''.py'' then Some (pm_lines metrics) else None),
                        classes_count = Some (if ext = ''.py'' then pm_classes metrics else 0),
                        functions_count = Some (if ext = ''.py'' then pm_functions metrics else 0),
                        fm_imports = (if ext = ''.py'' then pm_imports metrics else []),
                        content_hash = Some (if ext = ''.py'' then sha256_hex f else [])\<rparr>
                 in mb1\<lparr>files_metadata := files_metadata mb1 @ [file_meta],
                        mb_file_types := dd_incr ext (mb_file_types mb1),
                        mb_folder_structure := dd_incr folder_name (mb_folder_structure mb1),
                        mb_total_bytes := mb_total_bytes mb1 + size_bytes'\<rparr>)))"

fun scan_files :: "string \<Rightarrow> string list \<Rightarrow> (string \<times> disk_file) list \<Rightarrow> metadata_builder
                     \<Rightarrow> metadata_builder" where
  "scan_files folder_name dir_parts [] mb = mb"
| "scan_files folder_name dir_parts (entry # rest) mb =
     scan_files folder_name dir_parts rest (scan_file folder_name dir_parts entry mb)"

text \<open>
  \<^verbatim>\<open>upload_dir.walk()\<close> with the pruning \<^verbatim>\<open>dirnames[:] = [...]\<close>: top-down, a directory
  before its subdirectories, excluded subdirectories not entered.  Each item is the
  path of a directory relative to the root, as its components, with its files.
\<close>

fun walk :: "string list \<Rightarrow> dir_tree \<Rightarrow> (string list \<times> (string \<times> disk_file) list) list" where
  "walk dir_parts (Dir file_names subdirs) =
     (dir_parts, file_names)
     # concat (map (\<lambda>(d, t). walk (dir_parts @ [d]) t)
                   (filter (\<lambda>(d, t). d \<notin> set EXCLUDE_DIRS) subdirs))"

fun scan_dirs :: "(string list \<times> (string \<times> disk_file) list) list \<Rightarrow> metadata_builder
                    \<Rightarrow> metadata_builder" where
  "scan_dirs [] mb = mb"
| "scan_dirs ((dir_parts, file_names) # rest) mb =
     scan_dirs rest
       (scan_files (case dir_parts of [] \<Rightarrow> ''root'' | p # _ \<Rightarrow> p) dir_parts file_names mb)"

definition scan_directory :: "dir_tree \<Rightarrow> metadata_builder \<Rightarrow> metadata_builder" where
  "scan_directory tree mb = scan_dirs (walk [] tree) mb"

definition build_dependency_metadata :: "metadata_builder \<Rightarrow> dependency_metadata option" where
  "build_dependency_metadata mb =
     Some \<lparr>dm_total_dependencies = 0, dm_circular_dependencies = [], dm_most_imported_files = [],
           dm_missing_imports = [],
           external_packages = sorted_list_of_set (mb_external_packages mb)\<rparr>"

text \<open>
  What \<^verbatim>\<open>build_metadata\<close> reads from the file system besides the tree: the name and
  modification time of the upload directory and, when the summaries directory holds
  a JSON file, its modification time.
\<close>

record upload_info =
  dir_name :: string
  dir_mtime :: int
  summaries_mtime :: "int option"

definition reset_builder :: "metadata_builder \<Rightarrow> metadata_builder" where
  "reset_builder mb =
     mb\<lparr>files_metadata := [], mb_file_types := [], mb_folder_structure := [], mb_total_bytes := 0,
        mb_total_lines := 0, mb_total_classes := 0, mb_total_functions := 0,
        mb_external_packages := {}\<rparr>"

definition build_metadata :: "metadata_builder \<Rightarrow> string \<Rightarrow> upload_info \<Rightarrow> dir_tree
                                \<Rightarrow> metadata_builder \<times> codebase_metadata" where
  "build_metadata mb0 uid info tree =
     (let mb = scan_directory tree (reset_builder mb0)
      in (mb,
          \<lparr>upload_id = uid,
           name = dir_name info,
           uploaded_at = dir_mtime info,
           cm_total_files = int (length (files_metadata mb)),
           total_bytes = mb_total_bytes mb,
           file_types = mb_file_types mb,
           folder_structure = mb_folder_structure mb,
           total_lines = mb_total_lines mb,
           total_classes = mb_total_classes mb,
           total_functions = mb_total_functions mb,
           dependencies = build_dependency_metadata mb,
           files = files_metadata mb,
           has_summaries = (summaries_mtime info \<noteq> None),
           summaries_generated_at = summaries_mtime info,
           version_tag = None\<rparr>))"

section \<open>Notions of the specification and example trees\<close>

text \<open>
  The right-aligned suffixes of a dotted name, longest first: for
  \<^verbatim>\<open>app.services.parser\<close> they are the name itself, \<^verbatim>\<open>services.parser\<close> and \<^verbatim>\<open>parser\<close>.
\<close>

fun nonempty_suffixes :: "'a list \<Rightarrow> 'a list list" where
  "nonempty_suffixes [] = []"
| "nonempty_suffixes (x # xs) = (x # xs) # nonempty_suffixes xs"

definition dotted_suffixes :: "string \<Rightarrow> string list" where
  "dotted_suffixes dotted = map (join ''.'') (nonempty_suffixes (split_on CHR ''.'' dotted))"

text \<open>
  The token with trailing components stripped progressively: the token itself first,
  its first component last.
\<close>

definition stripped_prefixes :: "string \<Rightarrow> string list" where
  "stripped_prefixes token = map (join ''.'') (rev (tl (prefixes (split_on CHR ''.'' token))))"

definition transposed :: "(string, string list) dict \<Rightarrow> (string, string list) dict \<Rightarrow> bool" where
  "transposed g r = (\<forall>source target. (target \<in> set (adj g source)) = (source \<in> set (adj r target)))"

text \<open>Three files importing each other in a ring.\<close>

definition tree_cycle3 :: "(string \<times> read_outcome) list" where
  "tree_cycle3 =
     [(''a.py'', Content ''import b'' (Parsed [OtherNode, Import [''b'']])),
      (''b.py'', Content ''import c'' (Parsed [OtherNode, Import [''c'']])),
      (''c.py'', Content ''import a'' (Parsed [OtherNode, Import [''a'']]))]"

text \<open>Two files importing each other, and a third file importing the first.\<close>

definition tree_cycle2_plus :: "(string \<times> read_outcome) list" where
  "tree_cycle2_plus =
     [(''a.py'', Content ''import b'' (Parsed [OtherNode, Import [''b'']])),
      (''b.py'', Content ''import a'' (Parsed [OtherNode, Import [''a'']])),
      (''c.py'', Content ''import a'' (Parsed [OtherNode, Import [''a'']]))]"

text \<open>One file with an external import, an unresolvable local-looking import and an import of its neighbour.\<close>

definition tree_imports :: "(string \<times> read_outcome) list" where
  "tree_imports =
     [(''main.py'', Content ''import numpy, app.nonexistent.module, helper''
                      (Parsed [OtherNode, Import [''numpy'', ''app.nonexistent.module'', ''helper'']])),
      (''helper.py'', Content ''x = 1'' (Parsed [OtherNode]))]"

text \<open>Two snapshots: the files \<^verbatim>\<open>a\<close> and \<^verbatim>\<open>b\<close>, and the files \<^verbatim>\<open>b\<close> and \<^verbatim>\<open>c\<close>.\<close>

definition file_a :: file_metadata where
  "file_a = \<lparr>relative_path = ''a'', filename = ''a'', size_bytes = 10, extension = ''.py'',
     lines_count = Some 1, classes_count = Some 0, functions_count = Some 0, fm_imports = [],
     content_hash = Some ''aa''\<rparr>"

definition file_b :: file_metadata where
  "file_b = \<lparr>relative_path = ''b'', filename = ''b'', size_bytes = 20, extension = ''.py'',
     lines_count = Some 2, classes_count = Some 0, functions_count = Some 1, fm_imports = [''a''],
     content_hash = Some ''bb''\<rparr>"

definition file_c :: file_metadata where
  "file_c = \<lparr>relative_path = ''c'', filename = ''c'', size_bytes = 30, extension = ''.js'',
     lines_count = None, classes_count = Some 0, functions_count = Some 0, fm_imports = [],
     content_hash = Some []\<rparr>"

definition snapshot_of :: "string \<Rightarrow> file_metadata list \<Rightarrow> codebase_metadata" where
  "snapshot_of uid fs =
     \<lparr>upload_id = uid, name = uid, uploaded_at = 0, cm_total_files = int (length fs),
      total_bytes = sum_list (map size_bytes fs), file_types = [], folder_structure = [],
      total_lines = 3, total_classes = 0, total_functions = 1,
      dependencies = Some \<lparr>dm_total_dependencies = 0, dm_circular_dependencies = [],
                            dm_most_imported_files = [], dm_missing_imports = [],
                            external_packages = []\<rparr>,
      files = fs, has_summaries = False, summaries_generated_at = None, version_tag = None\<rparr>"

definition snapshot_ab :: codebase_metadata where
  "snapshot_ab = snapshot_of ''first'' [file_a, file_b]"

definition snapshot_bc :: codebase_metadata where
  "snapshot_bc = snapshot_of ''second'' [file_b, file_c]"

definition example_float_model :: float_model where
  "example_float_model = \<lparr>tie_up = (\<lambda>x. False), format_1f = (\<lambda>x. ''0.0''),
     format_plus_1f = (\<lambda>x. ''+0.0'')\<rparr>"

text \<open>
  A fresh metadata builder, the files of two small trees (one of them holding a
  file that does not parse), and the same tree with that file parsing to an empty
  module.
\<close>

definition empty_builder :: metadata_builder where
  "empty_builder = \<lparr>files_metadata = [], mb_file_types = [], mb_folder_structure = [],
     mb_total_bytes = 0, mb_total_lines = 0, mb_total_classes = 0, mb_total_functions = 0,
     mb_external_packages = {}\<rparr>"

definition ok_file :: disk_file where
  "ok_file = \<lparr>suffix_of_name = ''.py'', stat_size = Some 30,
     read_result = Content ''import helper, numpy'' (Parsed [OtherNode, Import [''helper'', ''numpy'']]),
     sha256_hex = ''11''\<rparr>"

definition helper_file :: disk_file where
  "helper_file = \<lparr>suffix_of_name = ''.py'', stat_size = Some 12,
     read_result = Content ''class H: pass'' (Parsed [OtherNode, ClassDef, OtherNode]),
     sha256_hex = ''22''\<rparr>"

definition bad_file :: disk_file where
  "bad_file = \<lparr>suffix_of_name = ''.py'', stat_size = Some 9,
     read_result = Content ''def f(:'' (SyntaxError 1 ''invalid syntax''),
     sha256_hex = ''33''\<rparr>"

definition tree_local :: dir_tree where
  "tree_local = Dir [(''helper.py'', helper_file), (''main.py'', ok_file)] []"

definition tree_bad :: dir_tree where
  "tree_bad = Dir [(''main.py'', ok_file), (''bad.py'', bad_file)] [(''pkg'', Dir [(''helper.py'', helper_file)] [])]"

definition example_info :: upload_info where
  "example_info = \<lparr>dir_name = ''upload'', dir_mtime = 0, summaries_mtime = None\<rparr>"

text \<open>A Python file that the scan processes: its suffix is \<^verbatim>\<open>.py\<close> in any case and \<^verbatim>\<open>stat\<close> succeeds.\<close>

definition scanned_py :: "disk_file \<Rightarrow> bool" where
  "scanned_py f = (lower (suffix_of_name f) = ''.py'' \<and> stat_size f \<noteq> None)"

text \<open>
  Two builder states that differ by one file: the first holds the record \<open>r\<close> where the
  second holds none, with the same records before and after it, \<open>n\<close> more lines, and
  the same numbers of classes and functions.
\<close>

definition one_more_file :: "file_metadata \<Rightarrow> int \<Rightarrow> metadata_builder \<Rightarrow> metadata_builder \<Rightarrow> bool" where
  "one_more_file r n mb' mb =
     ((\<exists>xs zs. files_metadata mb = xs @ zs \<and> files_metadata mb' = xs @ r # zs)
      \<and> mb_total_lines mb' = mb_total_lines mb + n
      \<and> mb_total_classes mb' = mb_total_classes mb
      \<and> mb_total_functions mb' = mb_total_functions mb)"

definition blank_file :: disk_file where
  "blank_file = bad_file\<lparr>read_result := Content ''def f(:'' (Parsed [])\<rparr>"

definition tree_blank :: dir_tree where
  "tree_blank = Dir [(''main.py'', ok_file), (''bad.py'', blank_file)] [(''pkg'', Dir [(''helper.py'', helper_file)] [])]"

text \<open>The import edges and the files of an adjacency dictionary.\<close>

definition edges_of :: "(string, string list) dict \<Rightarrow> (string \<times> string) set" where
  "edges_of g = {(u, v). v \<in> set (adj g u)}"

definition nodes_of :: "(string, string list) dict \<Rightarrow> string set" where
  "nodes_of g = set (keys g) \<union> \<Union> (set ` snd ` set g)"

section \<open>Dictionaries: lemmas\<close>

lemma map_of_dict_set: "map_of (dict_set k v d) = (map_of d)(k \<mapsto> v)"
  by (induction d) (auto simp: fun_eq_iff)

lemma keys_dom: "set (keys d) = dom (map_of d)"
  by (simp add: keys_def dom_map_of_conv_image_fst)

lemma keys_dict_set: "set (keys (dict_set k v d)) = insert k (set (keys d))"
  by (simp add: keys_dom map_of_dict_set)

lemma adj_absent: "k \<notin> set (keys g) \<Longrightarrow> adj g k = []"
  by (simp add: adj_def keys_def map_of_eq_None_iff[THEN iffD2])

lemma keys_dd_add: "set (keys (dd_add k v g)) = insert k (set (keys g))"
  by (simp add: dd_add_def keys_dict_set)

lemma adj_dd_add:
  "set (adj (dd_add k v g) k') = (if k' = k then insert v (set (adj g k)) else set (adj g k'))"
  by (auto simp: adj_def dd_add_def map_of_dict_set set_add_def split: option.splits)

section \<open>Graph builder: the reverse adjacency is the transpose\<close>

lemma transposed_relate_import:
  "transposed (graph b) (reverse_graph b) \<Longrightarrow>
   transposed (graph (relate_import f mm i b)) (reverse_graph (relate_import f mm i b))"
  by (auto simp: transposed_def relate_import_def Let_def adj_dd_add)

lemma transposed_relate_imports:
  "transposed (graph b) (reverse_graph b) \<Longrightarrow>
   transposed (graph (relate_imports f mm is b)) (reverse_graph (relate_imports f mm is b))"
  by (induction "is" arbitrary: b) (simp_all add: transposed_relate_import)

lemma transposed_relate_files:
  "transposed (graph b) (reverse_graph b) \<Longrightarrow>
   transposed (graph (relate_files fd mm b)) (reverse_graph (relate_files fd mm b))"
  by (induction fd arbitrary: b) (auto simp: transposed_relate_imports)

lemma load_files_keeps:
  "graph (load_files fs b) = graph b" "reverse_graph (load_files fs b) = reverse_graph b"
  "missing_imports (load_files fs b) = missing_imports b"
  "circular_deps (load_files fs b) = circular_deps b"
  by (induction fs arbitrary: b) auto

lemma detect_keeps:
  "detect_circular_dependencies limit b = Inr b' \<Longrightarrow>
     graph b' = graph b \<and> reverse_graph b' = reverse_graph b \<and> files_data b' = files_data b
     \<and> missing_imports b' = missing_imports b"
  by (auto simp: detect_circular_dependencies_def split: sum.splits)

lemma cycle3_returns: "isl (build_graph 1000 init_builder tree_cycle3) = False"
  by code_simp

text \<open>
  Claim C1.  Whenever \<open>build_graph\<close> on a fresh builder returns, the reverse
  adjacency of the builder is the exact transpose of its forward adjacency: \<open>target\<close>
  is among the files \<open>source\<close> imports if and only if \<open>source\<close> is among the files that
  import \<open>target\<close>.
\<close>

theorem build_graph_reverse_is_transpose:
  assumes "build_graph limit init_builder python_files = Inr (b, gd)"
  shows "(target \<in> set (adj (graph b) source)) = (source \<in> set (adj (reverse_graph b) target))"
proof -
  let ?b0 = "load_files python_files init_builder"
  have "transposed (graph ?b0) (reverse_graph ?b0)"
    by (simp add: load_files_keeps init_builder_def transposed_def adj_def)
  then have "transposed (graph (build_relationships ?b0)) (reverse_graph (build_relationships ?b0))"
    unfolding build_relationships_def by (rule transposed_relate_files)
  moreover from assms have "graph b = graph (build_relationships ?b0)"
    "reverse_graph b = reverse_graph (build_relationships ?b0)"
    by (auto simp: build_graph_def split: sum.splits dest: detect_keeps)
  ultimately show ?thesis by (simp add: transposed_def)
qed

theorem build_graph_reverse_is_transpose_witness:
  "(case build_graph 1000 init_builder tree_cycle3 of
      Inl e \<Rightarrow> False
    | Inr (b, gd) \<Rightarrow>
        (''b.py'' \<in> set (adj (graph b) ''a.py'')) = (''a.py'' \<in> set (adj (reverse_graph b) ''b.py'')))"
proof (cases "build_graph 1000 init_builder tree_cycle3")
  case (Inl e)
  with cycle3_returns show ?thesis by simp
next
  case (Inr r)
  obtain b gd where r: "r = (b, gd)" by (cases r)
  from build_graph_reverse_is_transpose[of 1000 tree_cycle3 b gd "''b.py''" "''a.py''"] Inr r
  show ?thesis by simp
qed

section \<open>Graph builder: missing imports\<close>

lemma missing_relate_imports:
  "missing_imports (relate_imports f mm is b) =
     missing_imports b @ map (\<lambda>t. \<lparr>mi_file = f, mi_import = t\<rparr>)
        (filter (\<lambda>t. \<not> resolved (resolve_import t f mm) \<and> is_local_import t) is)"
  by (induction "is" arbitrary: b) (auto simp: relate_import_def Let_def)

lemma missing_relate_files:
  "missing_imports (relate_files fd mm b) =
     missing_imports b @ concat (map (\<lambda>(f, is). map (\<lambda>t. \<lparr>mi_file = f, mi_import = t\<rparr>)
        (filter (\<lambda>t. \<not> resolved (resolve_import t f mm) \<and> is_local_import t) is)) fd)"
  by (induction fd arbitrary: b) (auto simp: missing_relate_imports)

lemma split_on_nonempty: "split_on sep s \<noteq> []"
  by (induction s) (auto split: list.splits)

lemma split_on_takeWhile: "split_on sep s = w # ws \<Longrightarrow> w = takeWhile (\<lambda>c. c \<noteq> sep) s"
  by (induction s arbitrary: w ws) (auto simp: split_on_nonempty split: if_splits list.splits)

lemma is_local_first_component:
  "is_local_import t = (takeWhile (\<lambda>c. c \<noteq> CHR ''.'') t \<in> set local_patterns)"
  using split_on_nonempty[of "CHR ''.''" t]
  by (auto simp: is_local_import_def split: list.splits dest: split_on_takeWhile)

text \<open>
  Claim C7.  \<open>build_relationships\<close> appends to the missing-imports list, in the order
  of the files and of their tokens, one record \<open>{file, token}\<close> for exactly those
  tokens whose resolution fails and whose first dotted component (the text before
  the first dot) is one of the local-looking names; every other unresolved token
  leaves the list alone.  The token \<^verbatim>\<open>numpy\<close> is not local-looking, the token
  \<^verbatim>\<open>app.nonexistent.module\<close> is.
\<close>

theorem missing_imports_are_unresolved_local_tokens:
  "missing_imports (build_relationships b) =
     missing_imports b @
     concat (map (\<lambda>(file, tokens).
                    map (\<lambda>token. \<lparr>mi_file = file, mi_import = token\<rparr>)
                      (filter (\<lambda>token.
                           \<not> resolved (resolve_import token file (build_module_mapping (files_data b)))
                           \<and> takeWhile (\<lambda>c. c \<noteq> CHR ''.'') token \<in> set local_patterns) tokens))
                 (files_data b))
   \<and> \<not> is_local_import ''numpy'' \<and> is_local_import ''app.nonexistent.module''"
  by (simp add: build_relationships_def missing_relate_files is_local_first_component
        local_patterns_def)

theorem missing_imports_are_unresolved_local_tokens_witness:
  "missing_imports (build_relationships (load_files tree_imports init_builder)) =
     [\<lparr>mi_file = ''main.py'', mi_import = ''app.nonexistent.module''\<rparr>]"
proof -
  have fd: "files_data (load_files tree_imports init_builder) =
              [(''main.py'', [''numpy'', ''app.nonexistent.module'', ''helper'']), (''helper.py'', [])]"
    by (simp add: tree_imports_def init_builder_def walk_imports_def)
  have mi: "missing_imports (load_files tree_imports init_builder) = []"
    by (simp add: load_files_keeps init_builder_def)
  show ?thesis
    using missing_imports_are_unresolved_local_tokens[of "load_files tree_imports init_builder"]
    unfolding fd mi
    by (simp add: build_module_mapping_def keys_def register_file_def module_name_of_def
          resolve_import_def local_patterns_def Let_def)
qed

section \<open>Module resolver: registration and resolution\<close>

lemma drop_upt_suffixes: "map (\<lambda>i. drop i xs) [0 ..< length xs] = nonempty_suffixes xs"
proof (induction xs)
  case Nil
  show ?case by simp
next
  case (Cons x xs)
  have "map (\<lambda>i. drop i (x # xs)) [0 ..< length (x # xs)]
        = (x # xs) # map (\<lambda>i. drop (Suc i) (x # xs)) [0 ..< length xs]"
    by (simp only: length_Cons map_upt_Suc drop_0)
  with Cons show ?case by simp
qed

lemma register_partials_apply:
  "register_partials f parts is m k =
     (if m k = None \<and> k \<in> (\<lambda>i. join ''.'' (drop i parts)) ` set is then Some f else m k)"
  by (induction "is" arbitrary: m) (auto simp: Let_def)

lemma set_dotted_suffixes:
  "set (dotted_suffixes n) =
     (\<lambda>i. join ''.'' (drop i (split_on CHR ''.'' n))) ` set [0 ..< length (split_on CHR ''.'' n)]"
  unfolding dotted_suffixes_def drop_upt_suffixes[symmetric] by (simp add: image_image)

lemma register_file_apply:
  "register_file f m k =
     (if k = module_name_of f then Some f
      else if m k = None \<and> k \<in> set (dotted_suffixes (module_name_of f)) then Some f
      else m k)"
  by (simp add: register_file_def Let_def register_partials_apply set_dotted_suffixes)

lemma resolve_prefixes_find:
  "resolve_prefixes parts i m =
     (case find (\<lambda>p. m p \<noteq> None) (map (\<lambda>j. join ''.'' (take j parts)) (rev [1 ..< Suc i])) of
        None \<Rightarrow> None | Some p \<Rightarrow> m p)"
  by (induction i) (auto simp: Let_def split: option.splits)

lemma prefixes_take: "prefixes xs = map (\<lambda>j. take j xs) [0 ..< Suc (length xs)]"
proof (induction xs rule: rev_induct)
  case Nil
  show ?case by simp
next
  case (snoc x xs)
  then show ?case by (simp add: nth_append)
qed

lemma stripped_prefixes_take:
  "stripped_prefixes token =
     map (\<lambda>j. join ''.'' (take j (split_on CHR ''.'' token)))
         (rev [1 ..< Suc (length (split_on CHR ''.'' token))])"
proof -
  have "tl (prefixes xs) = map (\<lambda>j. take j xs) [1 ..< Suc (length xs)]" for xs :: "string list"
    unfolding prefixes_take by (simp add: upt_rec[of 0] del: upt_Suc)
  then show ?thesis
    by (simp add: stripped_prefixes_def rev_map comp_def)
qed

text \<open>
  Claim C4, as the code has it.  Registering a file binds its full dotted name to the
  file, whatever the name was bound to before, and binds each right-aligned suffix
  of the dotted name to the file only where the suffix has no binding yet.
  Resolving a token returns the binding of the token itself if there is one,
  otherwise the binding of the first of its progressively stripped prefixes that
  has one, otherwise nothing.
\<close>

theorem registration_and_resolution:
  "register_file file_path module_map key =
     (if key = module_name_of file_path then Some file_path
      else if module_map key = None \<and> key \<in> set (dotted_suffixes (module_name_of file_path))
      then Some file_path
      else module_map key)
   \<and> resolve_import token source_file module_map =
     (case module_map token of
        Some target \<Rightarrow> Some target
      | None \<Rightarrow>
          (case find (\<lambda>p. module_map p \<noteq> None) (stripped_prefixes token) of
             None \<Rightarrow> None
           | Some p \<Rightarrow> module_map p))"
  by (cases "module_map token")
     (simp_all add: register_file_apply resolve_import_def Let_def resolve_prefixes_find
        stripped_prefixes_take)

theorem registration_and_resolution_witness:
  "register_file ''app/services/parser.py'' Map.empty ''services.parser'' = Some ''app/services/parser.py''
   \<and> resolve_import ''parser.Parser'' ''main.py''
        (register_file ''app/services/parser.py'' Map.empty) = Some ''app/services/parser.py''
   \<and> resolve_import ''numpy.linalg'' ''main.py''
        (register_file ''app/services/parser.py'' Map.empty) = None"
proof -
  have n: "module_name_of ''app/services/parser.py'' = ''app.services.parser''"
    by (simp add: module_name_of_def)
  have s: "dotted_suffixes ''app.services.parser'' = [''app.services.parser'', ''services.parser'', ''parser'']"
    by (simp add: dotted_suffixes_def)
  have p1: "stripped_prefixes ''parser.Parser'' = [''parser.Parser'', ''parser'']"
    by (simp add: stripped_prefixes_def)
  have p2: "stripped_prefixes ''numpy.linalg'' = [''numpy.linalg'', ''numpy'']"
    by (simp add: stripped_prefixes_def)
  have r: "register_file ''app/services/parser.py'' Map.empty k =
             (if k \<in> {''app.services.parser'', ''services.parser'', ''parser''}
              then Some ''app/services/parser.py'' else None)" for k
    using registration_and_resolution[of "''app/services/parser.py''" Map.empty k]
    unfolding n s by auto
  show ?thesis
    using registration_and_resolution[of "''app/services/parser.py''"
            "register_file ''app/services/parser.py'' Map.empty" "''services.parser''"
            "''parser.Parser''" "''main.py''"]
          registration_and_resolution[of "''app/services/parser.py''"
            "register_file ''app/services/parser.py'' Map.empty" "''services.parser''"
            "''numpy.linalg''" "''main.py''"]
    unfolding p1 p2 by (simp add: r)
qed

text \<open>
  The full dotted name does overwrite: \<^verbatim>\<open>c\<close> is first registered for \<^verbatim>\<open>a/c.py\<close>, as a
  suffix, and then rebound to \<^verbatim>\<open>c.py\<close>, whose dotted name it is; the token \<^verbatim>\<open>c\<close>
  resolves to the file registered last.
\<close>

theorem registration_overwrites_counterexample:
  "build_module_mapping [(''a/c.py'', [])] ''c'' = Some ''a/c.py''
   \<and> build_module_mapping [(''a/c.py'', []), (''c.py'', [])] ''c'' = Some ''c.py''
   \<and> resolve_import ''c'' ''main.py'' (build_module_mapping [(''a/c.py'', []), (''c.py'', [])]) = Some ''c.py''"
  by (simp add: build_module_mapping_def keys_def register_file_def module_name_of_def
        resolve_import_def Let_def)

section \<open>Graph builder: file dependencies\<close>

lemma register_file_values: "register_file f m k = Some v \<Longrightarrow> v = f \<or> m k = Some v"
  by (auto simp: register_file_def Let_def register_partials_apply split: if_splits)

lemma register_files_values: "register_files fs m k = Some v \<Longrightarrow> v \<in> set fs \<or> m k = Some v"
  by (induction fs arbitrary: m) (auto dest!: register_file_values)

lemma build_module_mapping_values:
  "build_module_mapping fd k = Some v \<Longrightarrow> v \<in> set (keys fd)"
  by (auto simp: build_module_mapping_def dest: register_files_values)

lemma resolve_prefixes_values: "resolve_prefixes parts i m = Some v \<Longrightarrow> \<exists>k. m k = Some v"
  by (induction i) (auto simp: Let_def split: option.splits)

lemma resolve_import_values: "resolve_import t f m = Some v \<Longrightarrow> \<exists>k. m k = Some v"
  by (auto simp: resolve_import_def Let_def split: option.splits dest: resolve_prefixes_values)

lemma relate_import_keys:
  assumes "f \<in> F" "\<And>k v. mm k = Some v \<Longrightarrow> v \<in> F"
    and "set (keys (graph b)) \<subseteq> F \<and> set (keys (reverse_graph b)) \<subseteq> F"
  shows "set (keys (graph (relate_import f mm i b))) \<subseteq> F
       \<and> set (keys (reverse_graph (relate_import f mm i b))) \<subseteq> F"
proof (cases "resolve_import i f mm")
  case None
  with assms show ?thesis by (simp add: relate_import_def)
next
  case (Some v)
  then have "v \<in> F" using assms(2) by (auto dest: resolve_import_values)
  with Some assms show ?thesis by (simp add: relate_import_def Let_def keys_dd_add)
qed

lemma relate_imports_keys:
  assumes "f \<in> F" "\<And>k v. mm k = Some v \<Longrightarrow> v \<in> F"
  shows "set (keys (graph b)) \<subseteq> F \<and> set (keys (reverse_graph b)) \<subseteq> F \<Longrightarrow>
         set (keys (graph (relate_imports f mm is b))) \<subseteq> F
       \<and> set (keys (reverse_graph (relate_imports f mm is b))) \<subseteq> F"
proof (induction "is" arbitrary: b)
  case Nil then show ?case by simp
next
  case (Cons i "is")
  show ?case
    unfolding relate_imports.simps
    by (rule Cons.IH, rule relate_import_keys[OF assms Cons.prems])
qed

lemma relate_files_keys:
  assumes "\<And>k v. mm k = Some v \<Longrightarrow> v \<in> F"
  shows "set (keys fd) \<subseteq> F \<Longrightarrow> set (keys (graph b)) \<subseteq> F \<and> set (keys (reverse_graph b)) \<subseteq> F \<Longrightarrow>
         set (keys (graph (relate_files fd mm b))) \<subseteq> F
       \<and> set (keys (reverse_graph (relate_files fd mm b))) \<subseteq> F"
proof (induction fd arbitrary: b)
  case Nil then show ?case by simp
next
  case (Cons e fd)
  obtain f "is" where e: "e = (f, is)" by (cases e)
  from Cons.prems(1) e have f: "f \<in> F" and fd: "set (keys fd) \<subseteq> F" by (auto simp: keys_def)
  show ?case
    unfolding e relate_files.simps
    by (rule Cons.IH[OF fd], rule relate_imports_keys[OF f assms Cons.prems(2)])
qed

lemma load_files_keys:
  "set (keys (files_data (load_files fs b))) = set (keys (files_data b)) \<union> fst ` set fs"
  by (induction fs arbitrary: b) (simp, force simp: keys_dict_set)

lemma build_graph_keys:
  assumes "build_graph limit init_builder python_files = Inr (b, gd)"
  shows "set (keys (graph b)) \<subseteq> fst ` set python_files"
    and "set (keys (reverse_graph b)) \<subseteq> fst ` set python_files"
proof -
  let ?b0 = "load_files python_files init_builder"
  let ?F = "fst ` set python_files"
  have F: "set (keys (files_data ?b0)) = ?F"
    by (simp add: load_files_keys) (simp add: init_builder_def keys_def)
  have "set (keys (graph (build_relationships ?b0))) \<subseteq> ?F
      \<and> set (keys (reverse_graph (build_relationships ?b0))) \<subseteq> ?F"
    unfolding build_relationships_def
  proof (rule relate_files_keys)
    show "build_module_mapping (files_data ?b0) k = Some v \<Longrightarrow> v \<in> ?F" for k v
      using build_module_mapping_values[of "files_data ?b0" k v] F by simp
    show "set (keys (files_data ?b0)) \<subseteq> ?F" using F by simp
    show "set (keys (graph ?b0)) \<subseteq> ?F \<and> set (keys (reverse_graph ?b0)) \<subseteq> ?F"
      by (simp add: load_files_keeps init_builder_def keys_def)
  qed
  moreover from assms have "graph b = graph (build_relationships ?b0)"
    "reverse_graph b = reverse_graph (build_relationships ?b0)"
    by (auto simp: build_graph_def split: sum.splits dest: detect_keeps)
  ultimately show "set (keys (graph b)) \<subseteq> ?F" "set (keys (reverse_graph b)) \<subseteq> ?F" by simp_all
qed

text \<open>
  Claim C10.  \<open>get_file_dependencies\<close> returns for every path and leaves the builder
  as it was.  For a path without recorded edges both lists are empty and both counts
  are zero; after \<open>build_graph\<close> on a fresh builder this is the case of every path
  that is not a file of the analysed tree.
\<close>

theorem get_file_dependencies_total:
  "fst (get_file_dependencies b file_path) = b
   \<and> (adj (graph b) file_path = [] \<and> adj (reverse_graph b) file_path = [] \<longrightarrow>
        snd (get_file_dependencies b file_path) =
          \<lparr>fd_file = file_path, imports_from = [], imported_by = [],
           fd_imports_count = 0, fd_imported_by_count = 0\<rparr>)
   \<and> (build_graph limit init_builder python_files = Inr (b, gd)
        \<and> file_path \<notin> fst ` set python_files \<longrightarrow>
        get_file_dependencies b file_path =
          (b, \<lparr>fd_file = file_path, imports_from = [], imported_by = [],
               fd_imports_count = 0, fd_imported_by_count = 0\<rparr>))"
proof (intro conjI impI)
  show "fst (get_file_dependencies b file_path) = b"
    by (simp add: get_file_dependencies_def)
next
  assume "adj (graph b) file_path = [] \<and> adj (reverse_graph b) file_path = []"
  then show "snd (get_file_dependencies b file_path) =
          \<lparr>fd_file = file_path, imports_from = [], imported_by = [],
           fd_imports_count = 0, fd_imported_by_count = 0\<rparr>"
    by (simp add: get_file_dependencies_def)
next
  assume h: "build_graph limit init_builder python_files = Inr (b, gd)
        \<and> file_path \<notin> fst ` set python_files"
  then have "file_path \<notin> set (keys (graph b))" "file_path \<notin> set (keys (reverse_graph b))"
    using build_graph_keys[of limit python_files b gd] by auto
  then show "get_file_dependencies b file_path =
          (b, \<lparr>fd_file = file_path, imports_from = [], imported_by = [],
               fd_imports_count = 0, fd_imported_by_count = 0\<rparr>)"
    by (simp add: get_file_dependencies_def adj_absent)
qed

theorem get_file_dependencies_total_witness:
  "(case build_graph 1000 init_builder tree_cycle3 of
      Inl e \<Rightarrow> False
    | Inr (b, gd) \<Rightarrow>
        ''ghost.py'' \<notin> fst ` set tree_cycle3
        \<and> adj (graph b) ''ghost.py'' = [] \<and> adj (reverse_graph b) ''ghost.py'' = []
        \<and> get_file_dependencies b ''ghost.py'' =
            (b, \<lparr>fd_file = ''ghost.py'', imports_from = [], imported_by = [],
                 fd_imports_count = 0, fd_imported_by_count = 0\<rparr>))"
proof (cases "build_graph 1000 init_builder tree_cycle3")
  case (Inl e)
  with cycle3_returns show ?thesis by simp
next
  case (Inr r)
  obtain b gd where r: "r = (b, gd)" by (cases r)
  have ghost: "''ghost.py'' \<notin> fst ` set tree_cycle3" by (simp add: tree_cycle3_def)
  from get_file_dependencies_total[of b "''ghost.py''" 1000 tree_cycle3 gd] Inr r ghost
  have "get_file_dependencies b ''ghost.py'' =
            (b, \<lparr>fd_file = ''ghost.py'', imports_from = [], imported_by = [],
                 fd_imports_count = 0, fd_imported_by_count = 0\<rparr>)" by simp
  moreover from this have "adj (graph b) ''ghost.py'' = [] \<and> adj (reverse_graph b) ''ghost.py'' = []"
    by (simp add: get_file_dependencies_def)
  ultimately show ?thesis using Inr r ghost by simp
qed

section \<open>Cycle detector\<close>

text \<open>
  Three facts about the traversal, by induction over its recursion.  The visited set
  only grows.  On an acyclic graph no call finds a cycle, raises \<^verbatim>\<open>ValueError\<close> or
  changes \<^verbatim>\<open>rec_stack\<close>.  A remaining depth of at least the number of unvisited files
  is never used up.  Hence \<open>build_graph\<close> returns on every acyclic import graph, with
  no cycle, whenever the recursion limit is at least the number of files; and every
  cycle that a call records is the current path from the first occurrence of the
  repeated file, followed by that file.
\<close>

lemma dfs_visited_mono:
  "dfs d g node path st = Inr (found, st') \<Longrightarrow> visited st \<subseteq> visited st'"
  "dfs_neighbors d g node path ns st = Inr (found, st') \<Longrightarrow> visited st \<subseteq> visited st'"
proof (induction d g node path st and d g node path ns st arbitrary: found st' and found st'
       rule: dfs_dfs_neighbors.induct)
  case (1 g node path st)
  then show ?case by simp
next
  case (2 depth g node path st)
  from 2(2) have "dfs_neighbors depth g node (path @ [node]) (adj g node)
       (st\<lparr>visited := insert node (visited st), rec_stack := insert node (rec_stack st)\<rparr>) = Inr (found, st')"
    by simp
  from 2(1)[OF this] show ?case by auto
next
  case (3 depth g node path st)
  then show ?case by auto
next
  case (4 depth g node path neighbor rest st)
  show ?case
  proof (cases "neighbor \<in> visited st")
    case True
    with 4(3)[OF _ _ ] 4(4) show ?thesis
      by (auto split: if_splits option.splits)
  next
    case False
    with 4(4) obtain f1 st1 where r1: "dfs depth g neighbor path st = Inr (f1, st1)"
      by (auto split: sum.splits)
    from 4(1)[OF False r1] have m1: "visited st \<subseteq> visited st1" .
    show ?thesis
    proof (cases f1)
      case True
      with 4(4) False r1 m1 show ?thesis by auto
    next
      case f: False
      with 4(4) False r1 have "dfs_neighbors depth g node path rest st1 = Inr (found, st')" by simp
      from 4(2)[OF False r1 refl f this] m1 show ?thesis by auto
    qed
  qed
qed


lemma dfs_acyclic:
  "acyclic (edges_of g) \<Longrightarrow> (\<forall>r \<in> rec_stack st. (r, node) \<in> (edges_of g)\<^sup>+) \<Longrightarrow>
           dfs d g node path st = Inl RecursionError
         \<or> (\<exists>st'. dfs d g node path st = Inr (False, st')
                 \<and> rec_stack st' = rec_stack st \<and> cycles st' = cycles st)"
  "acyclic (edges_of g) \<Longrightarrow> set ns \<subseteq> set (adj g node) \<Longrightarrow> node \<in> rec_stack st \<Longrightarrow>
         (\<forall>r \<in> rec_stack st. r = node \<or> (r, node) \<in> (edges_of g)\<^sup>+) \<Longrightarrow>
           dfs_neighbors d g node path ns st = Inl RecursionError
         \<or> (\<exists>st'. dfs_neighbors d g node path ns st = Inr (False, st')
                 \<and> rec_stack st' = rec_stack st - {node} \<and> cycles st' = cycles st)"
proof (induction d g node path st and d g node path ns st rule: dfs_dfs_neighbors.induct)
  case (1 g node path st)
  then show ?case by simp
next
  case (2 depth g node path st)
  note ac = 2(2)
  let ?st1 = "st\<lparr>visited := insert node (visited st), rec_stack := insert node (rec_stack st)\<rparr>"
  have nin: "node \<notin> rec_stack st"
    using 2(3) ac unfolding acyclic_def by blast
  have "dfs_neighbors depth g node (path @ [node]) (adj g node) ?st1 = Inl RecursionError
         \<or> (\<exists>st'. dfs_neighbors depth g node (path @ [node]) (adj g node) ?st1 = Inr (False, st')
                 \<and> rec_stack st' = rec_stack ?st1 - {node} \<and> cycles st' = cycles ?st1)"
    using 2(3) by (intro 2(1)[OF ac]) auto
  with nin show ?case by auto
next
  case (3 depth g node path st)
  then show ?case by simp
next
  case (4 depth g node path neighbor rest st)
  note ac = 4(4)
  have e: "(node, neighbor) \<in> edges_of g" using 4(5) by (simp add: edges_of_def)
  have reach: "(r, neighbor) \<in> (edges_of g)\<^sup>+" if "r \<in> rec_stack st" for r
    using 4(7) that e by (auto intro: trancl_into_trancl)
  have notstack: "neighbor \<notin> rec_stack st"
    using reach[of neighbor] ac unfolding acyclic_def by blast
  have rest: "set rest \<subseteq> set (adj g node)" using 4(5) by simp
  show ?case
  proof (cases "neighbor \<in> visited st")
    case True
    with notstack 4(3)[OF _ notstack ac rest 4(6) 4(7)] show ?thesis by simp
  next
    case False
    from 4(1)[OF False ac] reach
    consider "dfs depth g neighbor path st = Inl RecursionError"
      | st1 where "dfs depth g neighbor path st = Inr (False, st1)"
          "rec_stack st1 = rec_stack st" "cycles st1 = cycles st"
      by blast
    then show ?thesis
    proof cases
      case 1
      with False show ?thesis by simp
    next
      case 2
      from 4(2)[OF False 2(1) refl _ ac rest] 2(2) 4(6) 4(7)
      have "dfs_neighbors depth g node path rest st1 = Inl RecursionError
         \<or> (\<exists>st'. dfs_neighbors depth g node path rest st1 = Inr (False, st')
                 \<and> rec_stack st' = rec_stack st1 - {node} \<and> cycles st' = cycles st1)"
        by simp
      with False 2 show ?thesis by simp
    qed
  qed
qed

lemma dfs_enough_depth:
  "finite V \<Longrightarrow> (\<forall>u. set (adj g u) \<subseteq> V) \<Longrightarrow>
     node \<in> V \<Longrightarrow> node \<notin> visited st \<Longrightarrow> card (V - visited st) \<le> d \<Longrightarrow>
           dfs d g node path st \<noteq> Inl RecursionError"
  "finite V \<Longrightarrow> (\<forall>u. set (adj g u) \<subseteq> V) \<Longrightarrow>
     set ns \<subseteq> V \<Longrightarrow> card (V - visited st) \<le> d \<Longrightarrow>
           dfs_neighbors d g node path ns st \<noteq> Inl RecursionError"
proof (induction d g node path st and d g node path ns st rule: dfs_dfs_neighbors.induct)
  case (1 g node path st)
  then have "V - visited st \<noteq> {}" by auto
  with 1 show ?case by simp
next
  case (2 depth g node path st)
  note fin = 2(2) and closed = 2(3)
  let ?st1 = "st\<lparr>visited := insert node (visited st), rec_stack := insert node (rec_stack st)\<rparr>"
  have "V - visited ?st1 = (V - visited st) - {node}" by auto
  moreover have "node \<in> V - visited st" using 2 by simp
  ultimately have "card (V - visited ?st1) = card (V - visited st) - 1"
    using fin by simp
  with 2(6) have c: "card (V - visited ?st1) \<le> depth" by simp
  have "set (adj g node) \<subseteq> V" using closed by simp
  from 2(1)[OF fin closed this c] show ?case by simp
next
  case (3 depth g node path st)
  then show ?case by simp
next
  case (4 depth g node path neighbor rest st)
  note fin = 4(4) and closed = 4(5)
  have nV: "neighbor \<in> V" and rest: "set rest \<subseteq> V" using 4(6) by simp_all
  show ?case
  proof (cases "neighbor \<in> visited st")
    case True
    show ?thesis
    proof (cases "neighbor \<in> rec_stack st")
      case s: True
      with True show ?thesis by (simp split: option.splits)
    next
      case s: False
      from 4(3)[OF _ s fin closed rest 4(7)] True s show ?thesis by simp
    qed
  next
    case False
    note r1 = 4(1)[OF False fin closed nV False 4(7)]
    show ?thesis
    proof (cases "dfs depth g neighbor path st")
      case (Inl e)
      with r1 False show ?thesis by simp
    next
      case (Inr p)
      obtain f1 st1 where p: "p = (f1, st1)" by (cases p)
      have "visited st \<subseteq> visited st1" using dfs_visited_mono(1) Inr p by blast
      then have "card (V - visited st1) \<le> card (V - visited st)"
        using fin by (intro card_mono) auto
      with 4(7) have c: "card (V - visited st1) \<le> depth" by simp
      show ?thesis
      proof (cases f1)
        case True
        with False Inr p show ?thesis by simp
      next
        case f: False
        from 4(2)[OF False Inr p[symmetric] f fin closed rest c] False Inr p f show ?thesis by simp
      qed
    qed
  qed
qed


lemma adj_in_nodes: "set (adj g u) \<subseteq> nodes_of g"
proof (cases "map_of g u")
  case None
  then show ?thesis by (simp add: adj_def)
next
  case (Some vs)
  then have "(u, vs) \<in> set g" by (rule map_of_SomeD)
  then have "set vs \<subseteq> \<Union> (set ` snd ` set g)" by force
  with Some show ?thesis by (auto simp: adj_def nodes_of_def)
qed

lemma finite_nodes: "finite (nodes_of g)"
  by (simp add: nodes_of_def)

lemma dfs_roots_enough_depth:
  "set roots \<subseteq> nodes_of g \<Longrightarrow> card (nodes_of g) \<le> limit \<Longrightarrow>
     dfs_roots limit g roots st \<noteq> Inl RecursionError"
proof (induction roots arbitrary: st)
  case Nil
  show ?case by simp
next
  case (Cons node roots)
  have c: "card (nodes_of g - visited st) \<le> limit" for st :: dfs_state
    using Cons.prems(2) card_mono[OF finite_nodes, of "nodes_of g - visited st" g] by simp
  show ?case
  proof (cases "node \<in> visited st")
    case True
    with Cons show ?thesis by simp
  next
    case False
    have "dfs limit g node [] st \<noteq> Inl RecursionError"
      using Cons.prems(1) False c adj_in_nodes
      by (intro dfs_enough_depth(1)[OF finite_nodes]) auto
    with False Cons show ?thesis by (auto split: sum.splits)
  qed
qed

lemma dfs_roots_acyclic:
  "acyclic (edges_of g) \<Longrightarrow> set roots \<subseteq> nodes_of g \<Longrightarrow> card (nodes_of g) \<le> limit \<Longrightarrow>
   rec_stack st = {} \<Longrightarrow>
     \<exists>st'. dfs_roots limit g roots st = Inr st' \<and> rec_stack st' = {} \<and> cycles st' = cycles st"
proof (induction roots arbitrary: st)
  case Nil
  show ?case using Nil by simp
next
  case (Cons node roots)
  have c: "card (nodes_of g - visited st) \<le> limit"
    using Cons.prems(3) card_mono[OF finite_nodes, of "nodes_of g - visited st" g] by simp
  show ?case
  proof (cases "node \<in> visited st")
    case True
    with Cons show ?thesis by simp
  next
    case False
    have "dfs limit g node [] st \<noteq> Inl RecursionError"
      using Cons.prems(2) False c adj_in_nodes
      by (intro dfs_enough_depth(1)[OF finite_nodes]) auto
    with dfs_acyclic(1)[OF Cons.prems(1), of st node limit "[]"] Cons.prems(4)
    obtain st1 where r: "dfs limit g node [] st = Inr (False, st1)"
      "rec_stack st1 = {}" "cycles st1 = cycles st"
      by auto
    from Cons.IH[of st1] Cons.prems r False show ?thesis by simp
  qed
qed

lemma detect_acyclic:
  assumes "acyclic (edges_of (graph b))" "card (nodes_of (graph b)) \<le> limit"
  shows "detect_circular_dependencies limit b = Inr b"
proof -
  have "set (keys (graph b)) \<subseteq> nodes_of (graph b)" by (simp add: nodes_of_def)
  from dfs_roots_acyclic[OF assms(1) this assms(2),
         of "\<lparr>visited = {}, rec_stack = {}, cycles = circular_deps b\<rparr>"]
  show ?thesis by (auto simp: detect_circular_dependencies_def)
qed

lemma detect_enough_depth:
  "card (nodes_of (graph b)) \<le> limit \<Longrightarrow> detect_circular_dependencies limit b \<noteq> Inl RecursionError"
  using dfs_roots_enough_depth[of "keys (graph b)" "graph b" limit
          "\<lparr>visited = {}, rec_stack = {}, cycles = circular_deps b\<rparr>"]
  by (auto simp: detect_circular_dependencies_def nodes_of_def split: sum.splits)

lemma relate_imports_cycles: "circular_deps (relate_imports f mm is b) = circular_deps b"
  by (induction "is" arbitrary: b) (simp_all add: relate_import_def Let_def)

lemma relate_files_cycles: "circular_deps (relate_files fd mm b) = circular_deps b"
  by (induction fd arbitrary: b) (auto simp: relate_imports_cycles)

lemma acyclic_tree_reports_no_cycle:
  assumes "acyclic (edges_of (graph (build_relationships (load_files python_files init_builder))))"
    and "card (nodes_of (graph (build_relationships (load_files python_files init_builder)))) \<le> limit"
  shows "\<exists>b gd. build_graph limit init_builder python_files = Inr (b, gd)
           \<and> gd_circular_dependencies gd = []
           \<and> stat_circular_dependencies (gd_statistics gd) = 0"
proof -
  let ?b = "build_relationships (load_files python_files init_builder)"
  have "circular_deps ?b = []"
    by (simp add: build_relationships_def relate_files_cycles load_files_keeps init_builder_def)
  with detect_acyclic[OF assms] show ?thesis
    by (simp add: build_graph_def generate_graph_data_def Let_def)
qed

lemma index_of_Some:
  "index_of x xs = Some i \<Longrightarrow> x \<in> set xs \<and> drop i xs = dropWhile (\<lambda>y. y \<noteq> x) xs"
  by (induction xs arbitrary: i) (auto split: if_splits)

lemma dfs_cycle_is_path_slice:
  "dfs d g node path st = Inr (found, st') \<Longrightarrow>
     (if found
      then \<exists>p n. prefix (path @ [node]) p \<and> n \<in> set p
                \<and> cycles st' = cycles st @ [dropWhile (\<lambda>x. x \<noteq> n) p @ [n]]
      else cycles st' = cycles st)"
  "dfs_neighbors d g node path ns st = Inr (found, st') \<Longrightarrow>
     (if found
      then \<exists>p n. prefix path p \<and> n \<in> set p
                \<and> cycles st' = cycles st @ [dropWhile (\<lambda>x. x \<noteq> n) p @ [n]]
      else cycles st' = cycles st)"
proof (induction d g node path st and d g node path ns st arbitrary: found st' and found st'
       rule: dfs_dfs_neighbors.induct)
  case (1 g node path st)
  then show ?case by simp
next
  case (2 depth g node path st)
  from 2(2) have "dfs_neighbors depth g node (path @ [node]) (adj g node)
       (st\<lparr>visited := insert node (visited st), rec_stack := insert node (rec_stack st)\<rparr>) = Inr (found, st')"
    by simp
  from 2(1)[OF this] show ?case by (cases found) auto
next
  case (3 depth g node path st)
  then show ?case by auto
next
  case (4 depth g node path neighbor rest st)
  show ?case
  proof (cases "neighbor \<in> visited st")
    case True
    show ?thesis
    proof (cases "neighbor \<in> rec_stack st")
      case s: True
      with True 4(4) obtain i where i: "index_of neighbor path = Some i"
        and r: "found" "st' = st\<lparr>cycles := cycles st @ [drop i path @ [neighbor]]\<rparr>"
        by (auto split: option.splits)
      from index_of_Some[OF i] r show ?thesis
        by (auto intro!: exI[of _ path] exI[of _ neighbor])
    next
      case s: False
      with True 4(4) have "dfs_neighbors depth g node path rest st = Inr (found, st')" by simp
      from 4(3)[OF _ s this] True show ?thesis by simp
    qed
  next
    case False
    with 4(4) obtain f1 st1 where r1: "dfs depth g neighbor path st = Inr (f1, st1)"
      by (auto split: sum.splits)
    note h1 = 4(1)[OF False r1]
    show ?thesis
    proof (cases f1)
      case True
      with 4(4) False r1 have eq: "found" "st' = st1" by auto
      from h1 True obtain p n where "prefix (path @ [neighbor]) p" "n \<in> set p"
        "cycles st1 = cycles st @ [dropWhile (\<lambda>x. x \<noteq> n) p @ [n]]" by auto
      moreover from this(1) have "prefix path p" by (rule append_prefixD)
      ultimately show ?thesis using eq by auto
    next
      case f: False
      with 4(4) False r1 have "dfs_neighbors depth g node path rest st1 = Inr (found, st')" by simp
      from 4(2)[OF False r1 refl f this] h1 f show ?thesis by auto
    qed
  qed
qed

text \<open>
  Claim C5 at the tree \<open>tree_cycle2_plus\<close>.  The traversal from \<^verbatim>\<open>a.py\<close> reports the
  cycle of \<^verbatim>\<open>a.py\<close> and \<^verbatim>\<open>b.py\<close> and returns through \<^verbatim>\<open>return True\<close>, which skips
  \<^verbatim>\<open>rec_stack.remove\<close>: both files stay in \<^verbatim>\<open>rec_stack\<close>.  The traversal from \<^verbatim>\<open>c.py\<close>
  then finds its neighbour \<^verbatim>\<open>a.py\<close> visited and in \<^verbatim>\<open>rec_stack\<close>, although it is not on
  the current path, and \<^verbatim>\<open>path.index\<close> raises: \<open>build_graph\<close> fails and reports no cycle.
\<close>

theorem stale_rec_stack_raises_value_error:
  "build_graph 1000 init_builder tree_cycle2_plus = Inl ValueError"
  by code_simp

text \<open>
  On the ring of three files the cycle through all three is reported, and without
  \<^verbatim>\<open>c.py\<close> the cycle of \<^verbatim>\<open>a.py\<close> and \<^verbatim>\<open>b.py\<close> is reported: the failure above comes with
  the third file, which adds no cycle.
\<close>

lemma cycle2_reported:
  "map_sum id (\<lambda>r. gd_circular_dependencies (snd r))
     (build_graph 1000 init_builder (take 2 tree_cycle2_plus))
     = Inr [[''a.py'', ''b.py'', ''a.py'']]"
  by code_simp

lemma cycle3_reported:
  "map_sum id (\<lambda>r. gd_circular_dependencies (snd r)) (build_graph 1000 init_builder tree_cycle3)
     = Inr [[''a.py'', ''b.py'', ''c.py'', ''a.py'']]"
  by code_simp

section \<open>Repeated builds\<close>

text \<open>
  Claim C9 at the tree \<open>tree_imports\<close>.  \<open>build_graph\<close> does not reset the attributes
  of the builder: a second call on the same builder yields the same nodes and edges
  but reports the missing import twice, and the statistics count it twice.
\<close>

theorem second_build_graph_differs:
  "(case build_graph 1000 init_builder tree_imports of
      Inl e \<Rightarrow> False
    | Inr (b1, gd1) \<Rightarrow>
       (case build_graph 1000 b1 tree_imports of
          Inl e \<Rightarrow> False
        | Inr (b2, gd2) \<Rightarrow>
            gd_missing_imports gd1 = [\<lparr>mi_file = ''main.py'', mi_import = ''app.nonexistent.module''\<rparr>]
          \<and> gd_missing_imports gd2 = [\<lparr>mi_file = ''main.py'', mi_import = ''app.nonexistent.module''\<rparr>,
                                      \<lparr>mi_file = ''main.py'', mi_import = ''app.nonexistent.module''\<rparr>]
          \<and> stat_missing_imports (gd_statistics gd1) = 1
          \<and> stat_missing_imports (gd_statistics gd2) = 2
          \<and> nodes gd2 = nodes gd1 \<and> edges gd2 = edges gd1))"
  by code_simp

text \<open>Likewise the second call reports the cycle of the ring a second time.\<close>

lemma second_cycles:
  "(case build_graph 1000 init_builder tree_cycle3 of
      Inl e \<Rightarrow> False
    | Inr (b1, gd1) \<Rightarrow>
       (case build_graph 1000 b1 tree_cycle3 of
          Inl e \<Rightarrow> False
        | Inr (b2, gd2) \<Rightarrow>
            gd_circular_dependencies gd1 = [[''a.py'', ''b.py'', ''c.py'', ''a.py'']]
          \<and> gd_circular_dependencies gd2 = [[''a.py'', ''b.py'', ''c.py'', ''a.py''], [''a.py'', ''b.py'', ''c.py'', ''a.py'']]))"
  by code_simp

section \<open>Comparator\<close>

lemma py_round_int: "py_round fm n (of_int k) = of_int k"
  by (simp add: py_round_def Let_def flip: of_int_power of_int_mult)  

lemma py_round_1: "py_round fm n 1 = 1"
  using py_round_int[of fm n 1] by simp

lemma py_round_0: "py_round fm n 0 = 0"
  by (simp add: py_round_def)

lemma is_modified_same: "\<not> is_modified d d p"
  by (auto simp: is_modified_def split: option.splits)

lemma compare_file_structures_same:
  "compare_file_structures s s = \<lparr>added = [], removed = [], modified = [],
      unchanged = sorted_list_of_set (set (map relative_path (files s)))\<rparr>"
  by (simp add: compare_file_structures_def Let_def is_modified_same)

lemma compare_metrics_same:
  "size_change (compare_metrics fm s s) = 0" "lines_change (compare_metrics fm s s) = 0"
  by (simp_all add: compare_metrics_def Let_def)

lemma compare_dependencies_same:
  "compare_dependencies s s = \<lparr>dep_added = [], dep_removed = [], new_circular = [], resolved_circular = []\<rparr>"
  by (simp add: compare_dependencies_def Let_def split: option.splits)

lemma calculate_similarity_same: "calculate_similarity fm s s = 1"
proof (cases "files s")
  case Nil
  then show ?thesis by (simp add: calculate_similarity_def)
next
  case (Cons f fs)
  then have "card (set (map relative_path (files s))) \<noteq> 0" by simp
  with Cons show ?thesis
    by (simp add: calculate_similarity_def Let_def py_round_1 del: set_map)
qed

text \<open>
  Claim C2.  Comparing any snapshot with itself gives the similarity score 1.0, empty
  lists of added, removed and modified files, and the summary sentinel
  \<^verbatim>\<open>No significant changes detected\<close>.
\<close>

theorem compare_same:
  "similarity_score (compare fm now s s) = 1
   \<and> files_added (compare fm now s s) = []
   \<and> files_removed (compare fm now s s) = []
   \<and> files_modified (compare fm now s s) = []
   \<and> comparison_summary (compare fm now s s) = ''No significant changes detected''"
  by (simp add: compare_def Let_def calculate_similarity_same compare_file_structures_same
        generate_summary_def compare_metrics_same compare_dependencies_same)

theorem compare_same_witness:
  "similarity_score (compare example_float_model 0 snapshot_ab snapshot_ab) = 1
   \<and> files_modified (compare example_float_model 0 snapshot_ab snapshot_ab) = []
   \<and> comparison_summary (compare example_float_model 0 snapshot_ab snapshot_ab)
       = ''No significant changes detected''"
  using compare_same[of example_float_model 0 snapshot_ab] by simp

lemma py_round_near:
  "\<exists>k::int. py_round fm n x = of_int k / 10 ^ n \<and> \<bar>py_round fm n x - x\<bar> \<le> 1 / (2 * 10 ^ n)"
proof -
  define s where "s = x * 10 ^ n"
  define k where "k = (if s - of_int \<lfloor>s\<rfloor> < 1 / 2 then \<lfloor>s\<rfloor>
                       else if 1 / 2 < s - of_int \<lfloor>s\<rfloor> then \<lfloor>s\<rfloor> + 1
                       else if tie_up fm x then \<lfloor>s\<rfloor> + 1 else \<lfloor>s\<rfloor>)"
  have r: "py_round fm n x = of_int k / 10 ^ n"
    by (simp add: py_round_def Let_def k_def s_def)
  have fl: "of_int \<lfloor>s\<rfloor> \<le> s" "s < of_int \<lfloor>s\<rfloor> + 1"
    by linarith+
  have near: "\<bar>of_int k - s\<bar> \<le> 1 / 2"
    using fl by (auto simp: k_def abs_le_iff)
  have pos: "(0::rat) < 10 ^ n" by simp
  have x: "x = s / 10 ^ n" by (simp add: s_def)
  have "\<bar>of_int k / 10 ^ n - x\<bar> = \<bar>of_int k - s\<bar> / 10 ^ n"
    unfolding x by (simp add: diff_divide_distrib[symmetric] abs_divide del: of_int_diff)
  also have "\<dots> \<le> (1 / 2) / 10 ^ n"
    by (rule divide_right_mono[OF near]) simp
  finally have "\<bar>of_int k / 10 ^ n - x\<bar> \<le> 1 / (2 * 10 ^ n)" by simp
  with r show ?thesis by auto
qed

lemma similarity_jaccard:
  "similarity_score (compare fm now base cand) =
     (let B = set (map relative_path (files base));
          C = set (map relative_path (files cand))
      in if B = {} \<and> C = {} then 1
         else if B = {} \<or> C = {} then 0
         else py_round fm 3 (of_nat (card (B \<inter> C)) / of_nat (card (B \<union> C))))"
  by (auto simp: compare_def calculate_similarity_def Let_def)

lemma py_round_third: "py_round fm 3 (1 / 3) = 333 / 1000"
proof -
  have "\<lfloor>(1000::rat) / 3\<rfloor> = 333" by (rule floor_unique) simp_all
  then show ?thesis by (simp add: py_round_def Let_def)
qed

lemma jaccard_example:
  assumes B: "set (map relative_path (files base)) = {a, b}"
      and C: "set (map relative_path (files cand)) = {b, c}"
      and d: "a \<noteq> b" "b \<noteq> c" "a \<noteq> c"
  shows "similarity_score (compare fm now base cand) = 333 / 1000"
    and "files_added (compare fm now base cand) = [c]"
    and "files_removed (compare fm now base cand) = [a]"
proof -
  have i: "{a, b} \<inter> {b, c} = {b}" and u: "{a, b} \<union> {b, c} = {a, b, c}"
    and m1: "{b, c} - {a, b} = {c}" and m2: "{a, b} - {b, c} = {a}"
    using d by auto
  show "similarity_score (compare fm now base cand) = 333 / 1000"
    unfolding similarity_jaccard B C Let_def i u using d by (simp add: py_round_third)
  show "files_added (compare fm now base cand) = [c]"
    by (simp add: compare_def compare_file_structures_def Let_def B C m1 del: set_map)
  show "files_removed (compare fm now base cand) = [a]"
    by (simp add: compare_def compare_file_structures_def Let_def B C m2 del: set_map)
qed

text \<open>
  Claim C3.  The similarity score of a comparison is 1.0 when both sets of relative
  paths are empty, 0.0 when exactly one is empty, and otherwise the size of their
  intersection divided by the size of their union, rounded to 3 decimal places: the
  rounded value is a whole number of thousandths within half a thousandth of the
  quotient.  A base with the files \<open>a\<close> and \<open>b\<close> against a candidate with the files \<open>b\<close>
  and \<open>c\<close> scores 0.333, with \<open>c\<close> the only added and \<open>a\<close> the only removed file.
\<close>

theorem similarity_is_rounded_jaccard:
  "similarity_score (compare fm now base cand) =
     (let B = set (map relative_path (files base));
          C = set (map relative_path (files cand))
      in if B = {} \<and> C = {} then 1
         else if B = {} \<or> C = {} then 0
         else py_round fm 3 (of_nat (card (B \<inter> C)) / of_nat (card (B \<union> C))))
   \<and> (\<exists>k::int. py_round fm 3 x = of_int k / 1000 \<and> \<bar>py_round fm 3 x - x\<bar> \<le> 1 / 2000)
   \<and> (set (map relative_path (files base)) = {a, b}
        \<and> set (map relative_path (files cand)) = {b, c} \<and> a \<noteq> b \<and> b \<noteq> c \<and> a \<noteq> c \<longrightarrow>
          similarity_score (compare fm now base cand) = 333 / 1000
        \<and> files_added (compare fm now base cand) = [c]
        \<and> files_removed (compare fm now base cand) = [a])"
proof -
  have near: "\<exists>k::int. py_round fm 3 x = of_int k / 1000 \<and> \<bar>py_round fm 3 x - x\<bar> \<le> 1 / 2000"
    using py_round_near[of fm 3 x] by simp
  have example: "similarity_score (compare fm now base cand) = 333 / 1000
        \<and> files_added (compare fm now base cand) = [c]
        \<and> files_removed (compare fm now base cand) = [a]"
    if "set (map relative_path (files base)) = {a, b}
        \<and> set (map relative_path (files cand)) = {b, c} \<and> a \<noteq> b \<and> b \<noteq> c \<and> a \<noteq> c"
    using that jaccard_example[of base a b cand c fm now] by blast
  show ?thesis
  proof (intro conjI impI)
    assume h: "set (map relative_path (files base)) = {a, b}
        \<and> set (map relative_path (files cand)) = {b, c} \<and> a \<noteq> b \<and> b \<noteq> c \<and> a \<noteq> c"
    show "similarity_score (compare fm now base cand) = 333 / 1000"
      using example[OF h] by (rule conjunct1)
    show "files_added (compare fm now base cand) = [c]"
      using example[OF h] by (elim conjE)
    show "files_removed (compare fm now base cand) = [a]"
      using example[OF h] by (elim conjE)
  qed (rule similarity_jaccard, rule near)
qed

theorem similarity_is_rounded_jaccard_witness:
  "set (map relative_path (files snapshot_ab)) = {''a'', ''b''}
   \<and> set (map relative_path (files snapshot_bc)) = {''b'', ''c''}
   \<and> similarity_score (compare example_float_model 0 snapshot_ab snapshot_bc) = 333 / 1000
   \<and> files_added (compare example_float_model 0 snapshot_ab snapshot_bc) = [''c'']
   \<and> files_removed (compare example_float_model 0 snapshot_ab snapshot_bc) = [''a'']"
proof -
  have B: "set (map relative_path (files snapshot_ab)) = {''a'', ''b''}"
    by (simp add: snapshot_ab_def snapshot_of_def file_a_def file_b_def)
  have C: "set (map relative_path (files snapshot_bc)) = {''b'', ''c''}"
    by (simp add: snapshot_bc_def snapshot_of_def file_b_def file_c_def)
  show ?thesis
    using similarity_is_rounded_jaccard[of example_float_model 0 snapshot_ab snapshot_bc 0
            "''a''" "''b''" "''c''"] B C
    by simp
qed

section \<open>Metadata builder: files that do not parse\<close>

lemma track_external_set:
  "track_external imps ps = ps \<union> {imp \<in> set imps. CHR ''.'' \<notin> set imp}"
proof -
  have "fold (\<lambda>imp ps. if \<not> (take 1 imp = ''.'') \<and> CHR ''.'' \<notin> set imp then insert imp ps else ps) imps ps
        = ps \<union> {imp \<in> set imps. CHR ''.'' \<notin> set imp}"
  proof (induction imps arbitrary: ps)
    case Nil show ?case by simp
  next
    case (Cons i imps)
    have "take 1 i = ''.'' \<Longrightarrow> CHR ''.'' \<in> set i" by (cases i) auto
    with Cons show ?case by auto
  qed
  then show ?thesis by (simp add: track_external_def)
qed

lemma pm_imports_extract: "pm_imports (extract_python_metrics r) = extract_imports r"
  by (cases r rule: extract_imports.cases) simp_all

lemma py_supported: "''.py'' \<in> set SUPPORTED_EXTENSIONS"
  by (simp add: SUPPORTED_EXTENSIONS_def)

lemma scan_file_external:
  "mb_external_packages (scan_file F P e mb) =
     mb_external_packages mb \<union>
     (if scanned_py (snd e) then {imp \<in> set (extract_imports (read_result (snd e))). CHR ''.'' \<notin> set imp} else {})"
  by (auto simp: scan_file_def Let_def scanned_py_def track_external_set pm_imports_extract py_supported
           split: option.splits)

lemma scan_files_external:
  "mb_external_packages (scan_files F P fs mb) =
     mb_external_packages mb \<union>
     {imp. \<exists>e \<in> set fs. scanned_py (snd e) \<and> imp \<in> set (extract_imports (read_result (snd e))) \<and> CHR ''.'' \<notin> set imp}"
  by (induction fs arbitrary: mb) (auto simp: scan_file_external)

lemma scan_dirs_external:
  "mb_external_packages (scan_dirs ds mb) =
     mb_external_packages mb \<union>
     {imp. \<exists>d \<in> set ds. \<exists>e \<in> set (snd d). scanned_py (snd e) \<and> imp \<in> set (extract_imports (read_result (snd e))) \<and> CHR ''.'' \<notin> set imp}"
proof (induction ds arbitrary: mb)
  case Nil show ?case by simp
next
  case (Cons d ds)
  obtain P fs where d: "d = (P, fs)" by (cases d)
  show ?case unfolding d scan_dirs.simps Cons.IH scan_files_external by auto
qed

lemma scan_file_syntax_error:
  assumes "lower (suffix_of_name f) = ''.py''" "stat_size f = Some sz"
    and "read_result f = Content code (SyntaxError line msg)"
  shows "scan_file F P (fn, f) mb =
     mb\<lparr>files_metadata := files_metadata mb @
            [\<lparr>relative_path = replace_str [CHR 0x5C] ''/'' (join ''/'' (P @ [fn])),
              filename = fn, size_bytes = sz, extension = ''.py'',
              lines_count = Some (count_newlines code + 1), classes_count = Some 0,
              functions_count = Some 0, fm_imports = [], content_hash = Some (sha256_hex f)\<rparr>],
        mb_file_types := dd_incr ''.py'' (mb_file_types mb),
        mb_folder_structure := dd_incr F (mb_folder_structure mb),
        mb_total_bytes := mb_total_bytes mb + sz,
        mb_total_lines := mb_total_lines mb + (count_newlines code + 1),
        mb_external_packages := mb_external_packages mb\<rparr>"
  using assms by (simp add: scan_file_def Let_def py_supported track_external_def)

lemma scan_file_not_annotated:
  "scan_file F P (fn, f\<lparr>read_result := Content code (SyntaxError line msg)\<rparr>) mb =
   scan_file F P (fn, f\<lparr>read_result := Content code (Parsed [])\<rparr>) mb"
  by (simp add: scan_file_def Let_def walk_imports_def split: option.splits)

lemma one_more_scan_file:
  "one_more_file r n mb' mb \<Longrightarrow> one_more_file r n (scan_file F P e mb') (scan_file F P e mb)"
  unfolding one_more_file_def
  by (elim conjE exE) (auto simp: scan_file_def Let_def split: option.splits)

lemma one_more_scan_files:
  "one_more_file r n mb' mb \<Longrightarrow> one_more_file r n (scan_files F P fs mb') (scan_files F P fs mb)"
  by (induction fs arbitrary: mb' mb) (simp_all add: one_more_scan_file)

lemma one_more_scan_dirs:
  "one_more_file r n mb' mb \<Longrightarrow> one_more_file r n (scan_dirs ds mb') (scan_dirs ds mb)"
  by (induction ds arbitrary: mb' mb) (auto simp: one_more_scan_files)

lemma scan_files_append:
  "scan_files F P (xs @ ys) mb = scan_files F P ys (scan_files F P xs mb)"
  by (induction xs arbitrary: mb) simp_all

lemma scan_dirs_append: "scan_dirs (xs @ ys) mb = scan_dirs ys (scan_dirs xs mb)"
  by (induction xs arbitrary: mb) auto

lemma one_more_start:
  assumes "lower (suffix_of_name f) = ''.py''" "stat_size f = Some sz"
    and "read_result f = Content code (SyntaxError line msg)"
  shows "one_more_file
           \<lparr>relative_path = replace_str [CHR 0x5C] ''/'' (join ''/'' (P @ [fn])),
              filename = fn, size_bytes = sz, extension = ''.py'',
              lines_count = Some (count_newlines code + 1), classes_count = Some 0,
              functions_count = Some 0, fm_imports = [], content_hash = Some (sha256_hex f)\<rparr>
           (count_newlines code + 1) (scan_file F P (fn, f) mb) mb"
  unfolding scan_file_syntax_error[OF assms] one_more_file_def
  by (auto intro: exI[of _ "files_metadata mb"])

lemma malformed_in_scan:
  assumes "lower (suffix_of_name f) = ''.py''" "stat_size f = Some sz"
    and "read_result f = Content code (SyntaxError line msg)"
  shows "one_more_file
           \<lparr>relative_path = replace_str [CHR 0x5C] ''/'' (join ''/'' (P @ [fn])),
              filename = fn, size_bytes = sz, extension = ''.py'',
              lines_count = Some (count_newlines code + 1), classes_count = Some 0,
              functions_count = Some 0, fm_imports = [], content_hash = Some (sha256_hex f)\<rparr>
           (count_newlines code + 1)
           (scan_dirs (before @ (P, earlier @ (fn, f) # later) # after) mb)
           (scan_dirs (before @ (P, earlier @ later) # after) mb)"
  unfolding scan_dirs_append scan_dirs.simps scan_files_append scan_files.simps
  by (intro one_more_scan_dirs one_more_scan_files one_more_start[OF assms])

text \<open>
  What the two extractors do with a file whose content fails to parse with a syntax
  error.  Import extraction returns the empty token list and metric extraction
  returns the raw line count with zero classes, zero functions and no imports;
  the scan treats the file exactly as a file with the same text that parses to an
  empty module.  The scan goes on over the remaining files: compared with the scan
  of the tree without the file, the records of all other files are the same, the
  file adds its one record and its raw line count, and the class and function
  totals are unchanged.
\<close>

lemma malformed_file_in_scan:
  "extract_imports (Content code (SyntaxError line msg)) = []
   \<and> extract_python_metrics (Content code (SyntaxError line msg)) =
       \<lparr>pm_lines = count_newlines code + 1, pm_classes = 0, pm_functions = 0, pm_imports = []\<rparr>
   \<and> scan_file F P (fn, f\<lparr>read_result := Content code (SyntaxError line msg)\<rparr>) mb =
     scan_file F P (fn, f\<lparr>read_result := Content code (Parsed [])\<rparr>) mb
   \<and> (lower (suffix_of_name f) = ''.py'' \<and> stat_size f = Some sz
        \<and> read_result f = Content code (SyntaxError line msg) \<longrightarrow>
        one_more_file
           \<lparr>relative_path = replace_str [CHR 0x5C] ''/'' (join ''/'' (P @ [fn])),
              filename = fn, size_bytes = sz, extension = ''.py'',
              lines_count = Some (count_newlines code + 1), classes_count = Some 0,
              functions_count = Some 0, fm_imports = [], content_hash = Some (sha256_hex f)\<rparr>
           (count_newlines code + 1)
           (scan_dirs (before @ (P, earlier @ (fn, f) # later) # after) mb)
           (scan_dirs (before @ (P, earlier @ later) # after) mb))"
proof (intro conjI impI)
  assume "lower (suffix_of_name f) = ''.py'' \<and> stat_size f = Some sz
        \<and> read_result f = Content code (SyntaxError line msg)"
  then show "one_more_file
           \<lparr>relative_path = replace_str [CHR 0x5C] ''/'' (join ''/'' (P @ [fn])),
              filename = fn, size_bytes = sz, extension = ''.py'',
              lines_count = Some (count_newlines code + 1), classes_count = Some 0,
              functions_count = Some 0, fm_imports = [], content_hash = Some (sha256_hex f)\<rparr>
           (count_newlines code + 1)
           (scan_dirs (before @ (P, earlier @ (fn, f) # later) # after) mb)
           (scan_dirs (before @ (P, earlier @ later) # after) mb)"
    by (intro malformed_in_scan) simp_all
qed (simp_all add: scan_file_not_annotated)

lemma malformed_file_in_tree_bad:
  "lower (suffix_of_name bad_file) = ''.py'' \<and> stat_size bad_file = Some 9
   \<and> read_result bad_file = Content ''def f(:'' (SyntaxError 1 ''invalid syntax'')
   \<and> walk [] tree_bad = [([], [(''main.py'', ok_file), (''bad.py'', bad_file)]),
                          ([''pkg''], [(''helper.py'', helper_file)])]
   \<and> one_more_file
        \<lparr>relative_path = ''bad.py'', filename = ''bad.py'', size_bytes = 9, extension = ''.py'',
         lines_count = Some 1, classes_count = Some 0, functions_count = Some 0, fm_imports = [],
         content_hash = Some ''33''\<rparr>
        1
        (scan_directory tree_bad empty_builder)
        (scan_dirs [([], [(''main.py'', ok_file)]), ([''pkg''], [(''helper.py'', helper_file)])]
           empty_builder)"
proof -
  have h: "lower (suffix_of_name bad_file) = ''.py'' \<and> stat_size bad_file = Some 9
      \<and> read_result bad_file = Content ''def f(:'' (SyntaxError 1 ''invalid syntax'')"
    by (simp add: bad_file_def lower_def lower_char_def)
  have w: "walk [] tree_bad = [([], [(''main.py'', ok_file), (''bad.py'', bad_file)]),
                          ([''pkg''], [(''helper.py'', helper_file)])]"
    by (simp add: tree_bad_def EXCLUDE_DIRS_def)
  have s: "sha256_hex bad_file = ''33''" by (simp add: bad_file_def)
  show ?thesis
    using malformed_file_in_scan[of "''def f(:''" 1 "''invalid syntax''" "''root''" "[]"
            "''bad.py''" bad_file empty_builder 9 "[]" "[(''main.py'', ok_file)]" "[]"
            "[([''pkg''], [(''helper.py'', helper_file)])]"] h w s
    by (simp add: scan_directory_def count_newlines_def)
qed

text \<open>
  Claim C6 at the tree \<open>tree_bad\<close>, whose file \<^verbatim>\<open>bad.py\<close> fails to parse with a syntax
  error at line 1.  The claim has the extractor return, with the empty token list, a
  structured annotation \<^verbatim>\<open>syntax_error {line, message}\<close> on that file, as the sibling
  extractor \<^verbatim>\<open>_template_summary\<close> of \<^verbatim>\<open>routes/summary.py\<close> does in its handler of the
  same exception.  \<^verbatim>\<open>_extract_imports\<close> and \<^verbatim>\<open>_extract_python_metrics\<close> drop the
  exception: the tokens of the malformed file are those of a file that parses to an
  empty module, the snapshot of the tree is the snapshot of the tree in which the
  file parses to an empty module, and the record of the file consists of the nine
  fields shown, none of which holds the line or the message of the error.
\<close>

theorem syntax_error_leaves_no_annotation:
  "extract_imports (read_result bad_file) = extract_imports (read_result blank_file)
   \<and> build_metadata empty_builder ''u1'' example_info tree_bad
     = build_metadata empty_builder ''u1'' example_info tree_blank
   \<and> files (snd (build_metadata empty_builder ''u1'' example_info tree_bad)) ! 1 =
       \<lparr>relative_path = ''bad.py'', filename = ''bad.py'', size_bytes = 9, extension = ''.py'',
        lines_count = Some 1, classes_count = Some 0, functions_count = Some 0, fm_imports = [],
        content_hash = Some ''33''\<rparr>"
  by code_simp

section \<open>Metadata builder: external packages\<close>

text \<open>
  Claim C8, as the code has it.  The external-package list of a snapshot is the sorted
  set of the import tokens without a dot that the scanned Python files of the tree
  contain; no token is resolved against the tree or checked against the
  local-looking names.
\<close>

theorem external_packages_are_dot_free_tokens:
  "map_option external_packages (dependencies (snd (build_metadata mb0 uid info tree))) =
     Some (sorted_list_of_set
       {imp. \<exists>d \<in> set (walk [] tree). \<exists>e \<in> set (snd d).
               scanned_py (snd e)
             \<and> imp \<in> set (pm_imports (extract_python_metrics (read_result (snd e))))
             \<and> CHR ''.'' \<notin> set imp})"
  by (simp add: build_metadata_def Let_def build_dependency_metadata_def scan_directory_def
        scan_dirs_external reset_builder_def pm_imports_extract)

theorem external_packages_are_dot_free_tokens_witness:
  "sorted_list_of_set
       {imp. \<exists>d \<in> set (walk [] tree_local). \<exists>e \<in> set (snd d).
               scanned_py (snd e)
             \<and> imp \<in> set (pm_imports (extract_python_metrics (read_result (snd e))))
             \<and> CHR ''.'' \<notin> set imp} = [''helper'', ''numpy'']"
proof -
  have "map_option external_packages
          (dependencies (snd (build_metadata empty_builder ''u1'' example_info tree_local)))
        = Some [''helper'', ''numpy'']"
    by code_simp
  with external_packages_are_dot_free_tokens[of empty_builder "''u1''" example_info tree_local]
  show ?thesis by simp
qed

text \<open>
  The token \<^verbatim>\<open>helper\<close> is in the external-package list of the tree \<open>tree_local\<close>,
  although the module resolver maps it to the file \<^verbatim>\<open>helper.py\<close> of that tree.
\<close>

theorem external_set_holds_local_module_counterexample:
  "map_option external_packages
      (dependencies (snd (build_metadata empty_builder ''u1'' example_info tree_local)))
     = Some [''helper'', ''numpy'']
   \<and> resolve_import ''helper'' ''main.py''
       (build_module_mapping [(''helper.py'', []), (''main.py'', [''helper'', ''numpy''])])
     = Some ''helper.py''"
  by code_simp

end
